theory Spec2Isabelle
  imports Main "HOL-Library.Multiset"
begin

section \<open>Errors\<close>

text \<open>
  The exceptions that can end a run of \<^verbatim>\<open>fine-tune.py\<close>.  Every exception is a value;
  the string is the message or the name of what failed.
\<close>

datatype error =
    KeyError string
  | ValueError string
  | IndexError string
  | AttributeError string
  | ExternalError string

section \<open>The tokenizer\<close>

text \<open>
  The tokenizer object is created by the \<^verbatim>\<open>transformers\<close> library, which is not part of
  the source file.  The record keeps the attributes the program reads or writes
  (\<^verbatim>\<open>pad_token_id\<close>, \<^verbatim>\<open>eos_token_id\<close>, \<^verbatim>\<open>model_max_length\<close>), the side on which it
  pads, and its vocabulary encoding of one text as a function to vocabulary indices.
  A token id attribute is \<^verbatim>\<open>None\<close> in Python when the vocabulary has no such token.
\<close>

datatype padding_side = PadRight | PadLeft

record tokenizer =
  encode :: "string \<Rightarrow> nat list"
  pad_token_id :: "nat option"
  eos_token_id :: "nat option"
  tok_model_max_length :: int
  tok_padding_side :: padding_side

text \<open>
  The result of calling the tokenizer with \<^verbatim>\<open>return_tensors="pt"\<close>: two integer tensors
  of rank two, one row per text.
\<close>

record batch_encoding =
  input_ids :: "int list list"
  attention_mask :: "int list list"

definition pad_row :: "padding_side \<Rightarrow> nat \<Rightarrow> 'a \<Rightarrow> 'a list \<Rightarrow> 'a list" where
  "pad_row side n fill xs =
     (case side of
        PadRight \<Rightarrow> xs @ replicate (n - length xs) fill
      | PadLeft \<Rightarrow> replicate (n - length xs) fill @ xs)"

definition longest :: "'a list list \<Rightarrow> nat" where
  "longest xss = foldr max (map length xss) 0"

text \<open>
  Modelled from the spec: the tokenizer's call operator (library \<^verbatim>\<open>transformers\<close>, not
  under src/), as the program calls it at lines 42-48 with \<^verbatim>\<open>padding="longest"\<close>,
  \<^verbatim>\<open>truncation=True\<close> and \<^verbatim>\<open>return_tensors="pt"\<close>.  The spec says the transform
  ``tokenizes text, pads to the longest sequence in a batch'' and that padding positions
  are the non-attended ones.  Every text is encoded and cut to the bound; every row is
  then filled up to the longest row of the batch with the pad token id, the mask being 1
  on the tokens of the text and 0 on the filling.  The bound is the argument
  \<^verbatim>\<open>max_length\<close> when the caller gives one and the tokenizer's own
  \<^verbatim>\<open>model_max_length\<close> otherwise.  Padding without a pad token is an error, and so is
  a batch without a text: there is nothing to make the two tensors from.
\<close>

definition tokenizer_call :: "tokenizer \<Rightarrow> string list \<Rightarrow> nat option \<Rightarrow> error + batch_encoding" where
  "tokenizer_call tk texts max_length =
     (case pad_token_id tk of
        None \<Rightarrow> Inl (ValueError ''pad_token'')
      | Some pad \<Rightarrow>
          if texts = [] then Inl (ValueError ''empty batch'')
          else
          let bound = (case max_length of Some m \<Rightarrow> m | None \<Rightarrow> nat (tok_model_max_length tk));
              seqs = map (\<lambda>t. take bound (encode tk t)) texts;
              n = longest seqs
          in Inr \<lparr>input_ids = map (\<lambda>s. pad_row (tok_padding_side tk) n (int pad) (map int s)) seqs,
                  attention_mask =
                    map (\<lambda>s. pad_row (tok_padding_side tk) n 0 (replicate (length s) 1)) seqs\<rparr>)"

section \<open>The batch transform\<close>

text \<open>
  Line 52, \<^verbatim>\<open>labels[outputs.attention_mask == 0] = -100\<close>: assignment through a boolean
  mask.  The mask must have the shape of the tensor (an \<^verbatim>\<open>IndexError\<close> otherwise); the
  entries where the mask holds 0 become the value, the others stay.
\<close>

definition masked_fill_zero :: "int list list \<Rightarrow> int list list \<Rightarrow> int \<Rightarrow> error + int list list" where
  "masked_fill_zero t msk v =
     (if map length msk = map length t
      then Inr (map2 (\<lambda>row mrow. map2 (\<lambda>x m. if m = 0 then v else x) row mrow) t msk)
      else Inl (IndexError ''mask shape''))"

text \<open>
  \<^verbatim>\<open>dataset_transform(batch, tokenizer)\<close>, lines 41-58.  The batch is a dict from column
  names to columns; the result is a dict of three tensors.
\<close>

definition dataset_transform ::
  "(string \<rightharpoonup> string list) \<Rightarrow> tokenizer \<Rightarrow> error + (string \<rightharpoonup> int list list)" where
  "dataset_transform batch tk =
     (case batch ''prompt'' of
        None \<Rightarrow> Inl (KeyError ''prompt'')
      | Some prompts \<Rightarrow>
          (case tokenizer_call tk prompts (Some 512) of
             Inl e \<Rightarrow> Inl e
           | Inr outputs \<Rightarrow>
               (case masked_fill_zero (input_ids outputs) (attention_mask outputs) (- 100) of
                  Inl e \<Rightarrow> Inl e
                | Inr labels \<Rightarrow>
                    Inr [''input_ids'' \<mapsto> input_ids outputs,
                         ''attention_mask'' \<mapsto> attention_mask outputs,
                         ''labels'' \<mapsto> labels])))"

section \<open>Arguments\<close>

text \<open>
  The three dataclasses of lines 16-38.  \<^verbatim>\<open>TrainingArguments\<close> extends the library's
  class of the same name; of the inherited fields only \<^verbatim>\<open>output_dir\<close> is read by the
  program.  \<^verbatim>\<open>Optional[str]\<close> is an option; \<^verbatim>\<open>data_path\<close> defaults to \<^verbatim>\<open>None\<close>.
\<close>

record model_arguments =
  model_name_or_path :: "string option"

record data_arguments =
  data_path :: "string option"

record training_arguments =
  cache_dir :: "string option"
  optim :: string
  model_max_length :: int
  use_lora :: bool
  output_dir :: string

section \<open>The model and its adapter\<close>

text \<open>
  A model is seen through its named weight matrices, each with the flag that says whether
  it takes part in training, and through the switch that
  \<^verbatim>\<open>enable_input_require_grads\<close> turns on.
\<close>

record parameter =
  param_name :: string
  in_module :: string
  requires_grad :: bool

record model =
  parameters :: "parameter list"
  input_require_grads :: bool

text \<open>
  The \<^verbatim>\<open>LoraConfig\<close> of lines 83-90 (the dropout rate, a floating-point number that
  plays no part in which parameters train, is left out).
\<close>

record lora_config =
  task_type :: string
  target_modules :: "string list"
  inference_mode :: bool
  lora_r :: nat
  lora_alpha :: nat

record peft_model =
  base_model :: model
  adapter_parameters :: "parameter list"

datatype wrapped_model = Base model | Peft peft_model

fun named_parameters :: "wrapped_model \<Rightarrow> parameter list" where
  "named_parameters (Base m) = parameters m"
| "named_parameters (Peft pm) = parameters (base_model pm) @ adapter_parameters pm"

definition enable_input_require_grads :: "model \<Rightarrow> model" where
  "enable_input_require_grads m = m\<lparr>input_require_grads := True\<rparr>"

definition lora_adapters :: "lora_config \<Rightarrow> parameter \<Rightarrow> parameter list" where
  "lora_adapters cfg p =
     (if in_module p \<in> set (target_modules cfg)
      then [\<lparr>param_name = param_name p @ ''.lora_A'', in_module = in_module p,
              requires_grad = \<not> inference_mode cfg\<rparr>,
            \<lparr>param_name = param_name p @ ''.lora_B'', in_module = in_module p,
              requires_grad = \<not> inference_mode cfg\<rparr>]
      else [])"

text \<open>
  Modelled from the spec: \<^verbatim>\<open>get_peft_model\<close> (library \<^verbatim>\<open>peft\<close>, not under src/).  The
  spec says the wrapping adds ``a low-rank adapter layer targeting a named subset of weight
  matrices, freezing the base weights'', the result being ``the pretrained set frozen plus a
  small injected adapter parameter set''.  Every weight matrix of a targeted module gets
  its pair of adapter matrices, trainable unless the configuration asks for inference;
  every weight of the base model is frozen.  A configuration that targets no module of the
  model is the ``adapter misconfiguration'' failure of the spec.
\<close>

definition get_peft_model :: "model \<Rightarrow> lora_config \<Rightarrow> error + peft_model" where
  "get_peft_model m cfg =
     (let adapters = concat (map (lora_adapters cfg) (parameters m))
      in if adapters = [] then Inl (ValueError ''target_modules'')
         else Inr \<lparr>base_model = m\<lparr>parameters := map (\<lambda>p. p\<lparr>requires_grad := False\<rparr>) (parameters m)\<rparr>,
                   adapter_parameters = adapters\<rparr>)"

section \<open>Datasets\<close>

text \<open>
  A dataset is its list of records and the transform attached to it: \<^verbatim>\<open>set_transform\<close>
  is only ever given \<^verbatim>\<open>partial(dataset_transform, tokenizer=tokenizer)\<close>, so the
  transform is represented by that tokenizer.  What \<^verbatim>\<open>load_from_disk\<close> returns is one
  dataset or a dict of named splits.
\<close>

record 'r dataset =
  rows :: "'r list"
  format_transform :: "tokenizer option"

datatype 'r loaded = Dataset "'r dataset" | DatasetDict "(string \<times> 'r dataset) list"

text \<open>
  Lines 97-98, \<^verbatim>\<open>if "train" in dataset: dataset = dataset["train"]\<close>.  On a dict of splits
  the test is key membership; on a single dataset it runs over the records, none of which
  is a string, and is false.
\<close>

definition select_train :: "'r loaded \<Rightarrow> 'r loaded" where
  "select_train d =
     (case d of
        Dataset ds \<Rightarrow> Dataset ds
      | DatasetDict splits \<Rightarrow>
          (case map_of splits ''train'' of Some ds \<Rightarrow> Dataset ds | None \<Rightarrow> DatasetDict splits))"

text \<open>Line 102: both kinds of object accept \<^verbatim>\<open>set_transform\<close>.\<close>

definition set_transform :: "'r loaded \<Rightarrow> tokenizer \<Rightarrow> 'r loaded" where
  "set_transform d tk =
     (case d of
        Dataset ds \<Rightarrow> Dataset (ds\<lparr>format_transform := Some tk\<rparr>)
      | DatasetDict splits \<Rightarrow>
          DatasetDict (map (\<lambda>(k, ds). (k, ds\<lparr>format_transform := Some tk\<rparr>)) splits))"

definition select_rows :: "'r dataset \<Rightarrow> nat list \<Rightarrow> 'r dataset" where
  "select_rows ds idx = ds\<lparr>rows := map (\<lambda>i. rows ds ! i) idx\<rparr>"

definition test_indices :: "nat list \<Rightarrow> nat \<Rightarrow> nat list" where
  "test_indices p n_test = take n_test p"

definition train_indices :: "nat list \<Rightarrow> nat \<Rightarrow> nat \<Rightarrow> nat list" where
  "train_indices p n_test n_train = take n_train (drop n_test p)"

text \<open>
  Modelled from the spec: the shuffle of the library's random generator (\<^verbatim>\<open>numpy\<close>, not
  under src/), with which \<^verbatim>\<open>train_test_split\<close> permutes the record indices.  A
  generator is the sequence of its draws; the shuffle puts each element at the place among
  the ones already shuffled that the next draw selects.  Whatever the draws are, the
  result is a permutation of the list.
\<close>

fun insert_shuffle :: "(nat \<Rightarrow> nat) \<Rightarrow> 'a list \<Rightarrow> 'a list" where
  "insert_shuffle draw [] = []"
| "insert_shuffle draw (x # xs) =
     (let ys = insert_shuffle draw xs;
          k = draw (length xs) mod Suc (length xs)
      in take k ys @ x # drop k ys)"

definition generator_permutation :: "(nat \<Rightarrow> nat) \<Rightarrow> nat \<Rightarrow> nat list" where
  "generator_permutation draw n = insert_shuffle draw [0..<n]"

text \<open>
  Modelled from the spec: \<^verbatim>\<open>Dataset.train_test_split\<close> (library \<^verbatim>\<open>datasets\<close>, not under
  src/), called at line 103 with an absolute \<^verbatim>\<open>test_size\<close> and a seed.  The spec says it
  splits ``the dataset into train/held-out partitions with a fixed size and seed'' and
  that the split ``is deterministic for a fixed seed and size''.  The record indices are
  shuffled by a generator; the first \<^verbatim>\<open>test_size\<close> shuffled indices are held out and the
  rest train.  The generator is made from the seed when one is given and from the ambient
  random state of the process otherwise; \<open>rng\<close> is the library's way from the number
  that seeds a generator to its draws.  The spec leaves the failures of the split to the
  library (``not caught locally''): the library does nothing on a dataset without
  records, which it returns as both splits, and on any other dataset rejects with a
  \<^verbatim>\<open>ValueError\<close> an absolute test size that is not positive or not smaller than the
  number of records.  Both splits keep the transform of the dataset.
\<close>

definition train_test_split ::
  "(nat \<Rightarrow> nat \<Rightarrow> nat) \<Rightarrow> nat \<Rightarrow> 'r dataset \<Rightarrow> int \<Rightarrow> nat option \<Rightarrow> error + (string \<times> 'r dataset) list" where
  "train_test_split rng ambient ds test_size seed =
     (let n = length (rows ds)
      in if n = 0 then Inr [(''train'', ds), (''test'', ds)]
         else if test_size \<le> 0 \<or> int n \<le> test_size then Inl (ValueError ''test_size'')
         else
           let n_test = nat test_size;
               n_train = n - n_test;
               p = generator_permutation (rng (case seed of Some s \<Rightarrow> s | None \<Rightarrow> ambient)) n
           in Inr [(''train'', select_rows ds (train_indices p n_test n_train)),
                   (''test'', select_rows ds (test_indices p n_test))])"

text \<open>Line 103 on what was loaded: a dict of splits has no \<^verbatim>\<open>train_test_split\<close>.\<close>

definition loaded_train_test_split ::
  "(nat \<Rightarrow> nat \<Rightarrow> nat) \<Rightarrow> nat \<Rightarrow> 'r loaded \<Rightarrow> int \<Rightarrow> nat option \<Rightarrow> error + (string \<times> 'r dataset) list" where
  "loaded_train_test_split rng ambient d test_size seed =
     (case d of
        Dataset ds \<Rightarrow> train_test_split rng ambient ds test_size seed
      | DatasetDict splits \<Rightarrow> Inl (AttributeError ''train_test_split''))"

definition getitem :: "(string \<times> 'v) list \<Rightarrow> string \<Rightarrow> error + 'v" where
  "getitem d k = (case map_of d k of None \<Rightarrow> Inl (KeyError k) | Some v \<Rightarrow> Inr v)"

section \<open>The run\<close>

text \<open>
  The \<^verbatim>\<open>Trainer\<close> of lines 105-112, as the program configures it.  The data collator
  \<^verbatim>\<open>DataCollatorWithPadding(tokenizer)\<close> is the tokenizer it pads with.
\<close>

record 'r trainer =
  trainer_model :: wrapped_model
  trainer_args :: training_arguments
  train_dataset :: "'r dataset"
  eval_dataset :: "'r dataset"
  trainer_tokenizer :: tokenizer
  data_collator :: tokenizer

text \<open>
  What the libraries and the machine do for one run: the parsed command line, the two
  checkpoint loaders, the local and the remote dataset loader, the draws of the generator
  made from a given number, the ambient random state, and the results of training and
  saving.  The calls may fail.
\<close>

record 'r env =
  parse_args_into_dataclasses :: "error + (model_arguments \<times> data_arguments \<times> training_arguments)"
  model_from_pretrained :: "string option \<Rightarrow> string option \<Rightarrow> error + model"
  tokenizer_from_pretrained :: "string option \<Rightarrow> int \<Rightarrow> string option \<Rightarrow> error + tokenizer"
  load_from_disk :: "string option \<Rightarrow> error + 'r loaded"
  load_dataset :: "string option \<Rightarrow> string \<Rightarrow> error + 'r dataset"
  default_rng :: "nat \<Rightarrow> nat \<Rightarrow> nat"
  ambient_random_state :: nat
  trainer_train :: "'r trainer \<Rightarrow> error + unit"
  trainer_save_state :: "'r trainer \<Rightarrow> error + unit"
  trainer_save_model :: "'r trainer \<Rightarrow> string \<Rightarrow> error + unit"

text \<open>The calls into the outside world, in the order a run makes them.\<close>

datatype event =
    EvParseArgs
  | EvModelFromPretrained
  | EvTokenizerFromPretrained
  | EvGetPeftModel
  | EvPrintTrainableParameters
  | EvLoadFromDisk "string option"
  | EvLoadDataset "string option" string
  | EvTrainTestSplit int nat
  | EvTrainerTrain
  | EvSaveState
  | EvSaveModel string

text \<open>
  A piece of the run takes the calls made so far and returns its result, an exception or a
  value, with the calls extended.  \<open>call\<close> is a call into the outside world, \<open>step\<close> a
  computation of the program itself, \<open>and_then\<close> sequencing (an exception ends the run),
  \<open>try_except\<close> the bare \<^verbatim>\<open>try: ... except: ...\<close>, which catches every exception of its
  body.
\<close>

type_synonym 'a run = "event list \<Rightarrow> (error + 'a) \<times> event list"

definition call :: "event \<Rightarrow> error + 'a \<Rightarrow> 'a run" where
  "call ev r tr = (r, tr @ [ev])"

definition step :: "error + 'a \<Rightarrow> 'a run" where
  "step r tr = (r, tr)"

definition and_then :: "'a run \<Rightarrow> ('a \<Rightarrow> 'b run) \<Rightarrow> 'b run" where
  "and_then m f tr = (case m tr of (Inl e, tr') \<Rightarrow> (Inl e, tr') | (Inr x, tr') \<Rightarrow> f x tr')"

definition try_except :: "'a run \<Rightarrow> 'a run \<Rightarrow> 'a run" where
  "try_except body handler tr =
     (case body tr of (Inl e, tr') \<Rightarrow> handler tr' | (Inr x, tr') \<Rightarrow> (Inr x, tr'))"

text \<open>Lines 83-90.\<close>

definition peft_config :: lora_config where
  "peft_config =
     \<lparr>task_type = ''CAUSAL_LM'', target_modules = [''W_pack''], inference_mode = False,
      lora_r = 16, lora_alpha = 64\<rparr>"

text \<open>Lines 80-93: the optional wrapping of the model.\<close>

definition apply_lora :: "training_arguments \<Rightarrow> model \<Rightarrow> wrapped_model run" where
  "apply_lora training_args m =
     (if use_lora training_args
      then and_then (call EvGetPeftModel (get_peft_model (enable_input_require_grads m) peft_config))
             (\<lambda>pm. and_then (call EvPrintTrainableParameters (Inr ()))
                (\<lambda>_. step (Inr (Peft pm))))
      else step (Inr (Base m)))"

text \<open>Lines 95-100: the dataset is loaded inside \<^verbatim>\<open>try\<close>, with the hub as the handler.\<close>

definition load_data :: "'r env \<Rightarrow> data_arguments \<Rightarrow> 'r loaded run" where
  "load_data env data_args =
     try_except
       (and_then (call (EvLoadFromDisk (data_path data_args))
                    (load_from_disk env (data_path data_args)))
          (\<lambda>dataset. step (Inr (select_train dataset))))
       (and_then (call (EvLoadDataset (data_path data_args) ''train'')
                    (load_dataset env (data_path data_args) ''train''))
          (\<lambda>ds. step (Inr (Dataset ds))))"

text \<open>Lines 62-100: from the command line to the loaded dataset.\<close>

definition train_until_loaded ::
  "'r env \<Rightarrow> (training_arguments \<times> wrapped_model \<times> tokenizer \<times> 'r loaded) run" where
  "train_until_loaded env =
     and_then (call EvParseArgs (parse_args_into_dataclasses env))
       (\<lambda>(model_args, data_args, training_args).
     and_then (call EvModelFromPretrained
                 (model_from_pretrained env (model_name_or_path model_args) (cache_dir training_args)))
       (\<lambda>m.
     and_then (call EvTokenizerFromPretrained
                 (tokenizer_from_pretrained env (model_name_or_path model_args)
                    (model_max_length training_args) (cache_dir training_args)))
       (\<lambda>tokenizer0.
     let tokenizer = tokenizer0\<lparr>pad_token_id := eos_token_id tokenizer0\<rparr> in
     and_then (apply_lora training_args m)
       (\<lambda>wm.
     and_then (load_data env data_args)
       (\<lambda>dataset. step (Inr (training_args, wm, tokenizer, dataset)))))))"

text \<open>Lines 102-112: the transform, the split and the trainer.\<close>

definition build_trainer ::
  "'r env \<Rightarrow> training_arguments \<times> wrapped_model \<times> tokenizer \<times> 'r loaded \<Rightarrow> 'r trainer run" where
  "build_trainer env = (\<lambda>(training_args, wm, tokenizer, dataset0).
     let dataset = set_transform dataset0 tokenizer in
     and_then (call (EvTrainTestSplit 1000 42)
                 (loaded_train_test_split (default_rng env) (ambient_random_state env)
                    dataset 1000 (Some 42)))
       (\<lambda>splits.
     and_then (step (getitem splits ''train''))
       (\<lambda>train_split.
     and_then (step (getitem splits ''test''))
       (\<lambda>test_split.
     step (Inr \<lparr>trainer_model = wm, trainer_args = training_args,
                 train_dataset = train_split, eval_dataset = test_split,
                 trainer_tokenizer = tokenizer, data_collator = tokenizer\<rparr>)))))"

definition train_until_trainer :: "'r env \<Rightarrow> 'r trainer run" where
  "train_until_trainer env = and_then (train_until_loaded env) (build_trainer env)"

text \<open>Lines 113-115.\<close>

definition run_trainer :: "'r env \<Rightarrow> 'r trainer \<Rightarrow> unit run" where
  "run_trainer env trainer =
     and_then (call EvTrainerTrain (trainer_train env trainer))
       (\<lambda>_. and_then (call EvSaveState (trainer_save_state env trainer))
          (\<lambda>_. call (EvSaveModel (output_dir (trainer_args trainer)))
                  (trainer_save_model env trainer (output_dir (trainer_args trainer)))))"

text \<open>\<^verbatim>\<open>train()\<close>, lines 61-115.\<close>

definition train :: "'r env \<Rightarrow> unit run" where
  "train env = and_then (train_until_trainer env) (run_trainer env)"

section \<open>Closed forms and sample inputs\<close>

text \<open>
  The result of the tokenizer call and of the transform in closed form, for use in the
  proofs: the width of the padded batch, the padded row of token ids and of mask values of
  one text, and the labels of one row.
\<close>

definition tokenized_width :: "tokenizer \<Rightarrow> nat \<Rightarrow> string list \<Rightarrow> nat" where
  "tokenized_width tk b texts = longest (map (\<lambda>t. take b (encode tk t)) texts)"

definition padded_ids :: "tokenizer \<Rightarrow> nat \<Rightarrow> nat \<Rightarrow> string list \<Rightarrow> string \<Rightarrow> int list" where
  "padded_ids tk b p texts t =
     pad_row (tok_padding_side tk) (tokenized_width tk b texts) (int p) (map int (take b (encode tk t)))"

definition padded_mask :: "tokenizer \<Rightarrow> nat \<Rightarrow> string list \<Rightarrow> string \<Rightarrow> int list" where
  "padded_mask tk b texts t =
     pad_row (tok_padding_side tk) (tokenized_width tk b texts) 0
       (replicate (length (take b (encode tk t))) 1)"

definition ignore_padding :: "int list \<Rightarrow> int list \<Rightarrow> int list" where
  "ignore_padding ids msk = map2 (\<lambda>x m. if m = 0 then - 100 else x) ids msk"

text \<open>
  The padded length of a batch in the words of the spec: the length of the longest
  tokenized prompt, a prompt of more than 512 tokens counting as 512.
\<close>

definition padded_length :: "tokenizer \<Rightarrow> string list \<Rightarrow> nat" where
  "padded_length tk prompts = Max (set (map (\<lambda>t. min 512 (length (encode tk t))) prompts))"

text \<open>
  Concrete inputs on which the theorems are instantiated: a tokenizer whose vocabulary is
  the bytes, a batch of two prompts, a model with one targeted weight, datasets of 1001,
  of 3 and of no records, and environments: one where the local load succeeds, and three
  where only the hub delivers, the small, the empty and the large dataset.
\<close>

definition byte_tokenizer :: tokenizer where
  "byte_tokenizer =
     \<lparr>encode = map of_char, pad_token_id = Some 0, eos_token_id = Some 2,
      tok_model_max_length = 4, tok_padding_side = PadRight\<rparr>"

definition sample_batch :: "string \<rightharpoonup> string list" where
  "sample_batch = [''prompt'' \<mapsto> [''ab'', ''c'']]"


text \<open>
  The two partitions that the run hands to the trainer, as lists of records, and what
  line 103 makes them: a function of the records and of the draws of the generator.
\<close>

definition partition_of :: "error + 'r trainer \<Rightarrow> error + ('r list \<times> 'r list)" where
  "partition_of r =
     (case r of Inl e \<Rightarrow> Inl e | Inr T \<Rightarrow> Inr (rows (train_dataset T), rows (eval_dataset T)))"

definition seeded_partition :: "(nat \<Rightarrow> nat) \<Rightarrow> 'r list \<Rightarrow> error + ('r list \<times> 'r list)" where
  "seeded_partition draw xs =
     (if xs = [] then Inr ([], [])
      else if length xs \<le> 1000 then Inl (ValueError ''test_size'')
      else Inr (map (\<lambda>i. xs ! i) (drop 1000 (generator_permutation draw (length xs))),
                map (\<lambda>i. xs ! i) (take 1000 (generator_permutation draw (length xs)))))"

definition sample_dataset :: "nat dataset" where
  "sample_dataset = \<lparr>rows = [0..<1001], format_transform = None\<rparr>"

definition small_dataset :: "nat dataset" where
  "small_dataset = \<lparr>rows = [0..<3], format_transform = None\<rparr>"

definition empty_dataset :: "nat dataset" where
  "empty_dataset = \<lparr>rows = [], format_transform = None\<rparr>"

definition sample_model :: model where
  "sample_model =
     \<lparr>parameters =
        [\<lparr>param_name = ''model.layers.0.self_attn.W_pack.weight'', in_module = ''W_pack'',
          requires_grad = True\<rparr>,
         \<lparr>param_name = ''lm_head.weight'', in_module = ''lm_head'', requires_grad = True\<rparr>],
      input_require_grads = False\<rparr>"

definition sample_training_arguments :: training_arguments where
  "sample_training_arguments =
     \<lparr>cache_dir = None, optim = ''adamw_torch'', model_max_length = 512, use_lora = True,
      output_dir = ''out''\<rparr>"

definition sample_data_arguments :: data_arguments where
  "sample_data_arguments = \<lparr>data_path = Some ''data''\<rparr>"

definition sample_env :: "nat env" where
  "sample_env =
     \<lparr>parse_args_into_dataclasses =
        Inr (\<lparr>model_name_or_path = Some ''baichuan-inc/Baichuan2-7B-Base''\<rparr>,
             sample_data_arguments, sample_training_arguments),
      model_from_pretrained = (\<lambda>name cache. Inr sample_model),
      tokenizer_from_pretrained =
        (\<lambda>name len cache. Inr (byte_tokenizer\<lparr>pad_token_id := None, tok_model_max_length := len\<rparr>)),
      load_from_disk = (\<lambda>path. Inr (DatasetDict [(''train'', sample_dataset), (''validation'', small_dataset)])),
      load_dataset = (\<lambda>path split. Inl (ExternalError ''offline'')),
      default_rng = (\<lambda>seed k. seed + k),
      ambient_random_state = 7,
      trainer_train = (\<lambda>trainer. Inr ()),
      trainer_save_state = (\<lambda>trainer. Inr ()),
      trainer_save_model = (\<lambda>trainer dir. Inr ())\<rparr>"

definition hub_env :: "nat env" where
  "hub_env =
     sample_env\<lparr>load_from_disk := (\<lambda>path. Inl (ExternalError ''not a dataset directory'')),
                load_dataset := (\<lambda>path split. Inr small_dataset)\<rparr>"

definition empty_env :: "nat env" where
  "empty_env = hub_env\<lparr>load_dataset := (\<lambda>path split. Inr empty_dataset)\<rparr>"



text \<open>A piece of a run only makes calls that satisfy a predicate.\<close>

definition emits_only :: "(event \<Rightarrow> bool) \<Rightarrow> 'a run \<Rightarrow> bool" where
  "emits_only P m = (\<forall>tr. \<exists>new. snd (m tr) = tr @ new \<and> list_all P new)"


text \<open>The tokenizer that the sample environments load, before line 78.\<close>

definition loaded_tokenizer :: tokenizer where
  "loaded_tokenizer = byte_tokenizer\<lparr>pad_token_id := None, tok_model_max_length := 512\<rparr>"

section \<open>Properties\<close>

lemma length_pad_row: "length (pad_row side n fill xs) = max n (length xs)"
  by (cases side) (auto simp: pad_row_def)

lemma le_longest: "xs \<in> set xss \<Longrightarrow> length xs \<le> longest xss"
  unfolding longest_def by (induction xss) auto


lemma longest_Max: "xss \<noteq> [] \<Longrightarrow> longest xss = Max (length ` set xss)"
  unfolding longest_def
proof (induction xss)
  case Nil then show ?case by simp
next
  case (Cons a xss)
  show ?case
  proof (cases "xss = []")
    case True then show ?thesis by simp
  next
    case False
    with Cons have "foldr max (map length xss) 0 = Max (length ` set xss)" by simp
    with False show ?thesis by simp
  qed
qed

lemma pad_row_nth_mask:
  assumes "k \<le> n" "j < n"
  shows "pad_row side n (0::int) (replicate k 1) ! j \<in> {0, 1}"
  using assms by (cases side) (auto simp: pad_row_def nth_append)

lemma pad_row_nth_fill:
  assumes "length xs = k" "k \<le> n" "j < n" "pad_row side n (0::int) (replicate k 1) ! j = 0"
  shows "pad_row side n fill xs ! j = fill"
  using assms by (cases side) (auto simp: pad_row_def nth_append split: if_splits)

lemma pad_row_nth_nonneg:
  assumes "j < n" "length xs \<le> n"
  shows "0 \<le> pad_row side n (int p) (map int xs) ! j"
  using assms by (cases side) (auto simp: pad_row_def nth_append)

lemma tokenizer_call_Inr:
  assumes "pad_token_id tk = Some p" and "texts \<noteq> []"
  shows "tokenizer_call tk texts (Some b) =
    Inr \<lparr>input_ids = map (\<lambda>t. pad_row (tok_padding_side tk) (longest (map (\<lambda>t. take b (encode tk t)) texts)) (int p)
                          (map int (take b (encode tk t)))) texts,
         attention_mask = map (\<lambda>t. pad_row (tok_padding_side tk) (longest (map (\<lambda>t. take b (encode tk t)) texts)) 0
                          (replicate (length (take b (encode tk t))) 1)) texts\<rparr>"
  using assms by (simp add: tokenizer_call_def Let_def comp_def)

lemma tokenizer_call_Some:
  assumes "pad_token_id tk = Some p" and "texts \<noteq> []"
  shows "tokenizer_call tk texts (Some b) =
    Inr \<lparr>input_ids = map (padded_ids tk b p texts) texts,
         attention_mask = map (padded_mask tk b texts) texts\<rparr>"
  unfolding padded_ids_def padded_mask_def tokenized_width_def
  by (rule tokenizer_call_Inr[OF assms])

lemma tokenizer_call_empty:
  assumes "pad_token_id tk = Some p"
  shows "tokenizer_call tk [] ml = Inl (ValueError ''empty batch'')"
  using assms by (simp add: tokenizer_call_def)

lemma tokenizer_call_None:
  assumes "pad_token_id tk = None"
  shows "tokenizer_call tk texts ml = Inl (ValueError ''pad_token'')"
  using assms by (simp add: tokenizer_call_def)


lemma truncated_le_width:
  assumes "t \<in> set texts"
  shows "length (take b (encode tk t)) \<le> tokenized_width tk b texts"
proof -
  from assms have "take b (encode tk t) \<in> set (map (\<lambda>t. take b (encode tk t)) texts)"
    by simp
  then show ?thesis unfolding tokenized_width_def by (rule le_longest)
qed

lemma length_padded_ids:
  assumes "t \<in> set texts"
  shows "length (padded_ids tk b p texts t) = tokenized_width tk b texts"
  using truncated_le_width[OF assms, of b tk]
  by (simp add: padded_ids_def length_pad_row)

lemma length_padded_mask:
  assumes "t \<in> set texts"
  shows "length (padded_mask tk b texts t) = tokenized_width tk b texts"
  using truncated_le_width[OF assms, of b tk]
  by (simp add: padded_mask_def length_pad_row)

lemma padded_mask_cell:
  assumes "t \<in> set texts" and "j < tokenized_width tk b texts"
  shows "padded_mask tk b texts t ! j = 0 \<or> padded_mask tk b texts t ! j = 1"
proof -
  have "padded_mask tk b texts t ! j \<in> {0, 1}"
    unfolding padded_mask_def
    by (rule pad_row_nth_mask[OF truncated_le_width[OF assms(1)] assms(2)])
  then show ?thesis by simp
qed

lemma padded_ids_nonneg:
  assumes "t \<in> set texts" and "j < tokenized_width tk b texts"
  shows "0 \<le> padded_ids tk b p texts t ! j"
  unfolding padded_ids_def
  by (rule pad_row_nth_nonneg[OF assms(2) truncated_le_width[OF assms(1)]])

lemma padded_ids_fill:
  assumes "t \<in> set texts" and "j < tokenized_width tk b texts"
    and "padded_mask tk b texts t ! j = 0"
  shows "padded_ids tk b p texts t ! j = int p"
proof -
  have "pad_row (tok_padding_side tk) (tokenized_width tk b texts) (int p)
          (map int (take b (encode tk t))) ! j = int p"
  proof (rule pad_row_nth_fill)
    show "length (map int (take b (encode tk t))) = length (take b (encode tk t))" by simp
    show "length (take b (encode tk t)) \<le> tokenized_width tk b texts"
      by (rule truncated_le_width[OF assms(1)])
    show "j < tokenized_width tk b texts" by (rule assms(2))
    show "pad_row (tok_padding_side tk) (tokenized_width tk b texts) (0::int)
            (replicate (length (take b (encode tk t))) 1) ! j = 0"
      using assms(3) unfolding padded_mask_def .
  qed
  then show ?thesis by (simp add: padded_ids_def)
qed

lemma masked_fill_zero_map:
  assumes "\<And>t. t \<in> set ps \<Longrightarrow> length (g t) = length (f t)"
  shows "masked_fill_zero (map f ps) (map g ps) (- 100) = Inr (map (\<lambda>t. ignore_padding (f t) (g t)) ps)"
proof -
  have sh: "map length (map g ps) = map length (map f ps)"
    using assms by simp
  have "map2 (\<lambda>row mrow. map2 (\<lambda>x m. if m = 0 then - 100 else x) row mrow) (map f ps) (map g ps)
      = map (\<lambda>t. ignore_padding (f t) (g t)) ps"
    by (induction ps) (simp_all add: ignore_padding_def)
  with sh show ?thesis by (simp only: masked_fill_zero_def simp_thms if_True)
qed

lemma length_ignore_padding:
  "length msk = length ids \<Longrightarrow> length (ignore_padding ids msk) = length ids"
  by (simp add: ignore_padding_def)

lemma ignore_padding_nth:
  "length msk = length ids \<Longrightarrow> j < length ids \<Longrightarrow>
     ignore_padding ids msk ! j = (if msk ! j = 0 then - 100 else ids ! j)"
  by (simp add: ignore_padding_def)

lemma dataset_transform_Some:
  assumes "batch ''prompt'' = Some ps" and "ps \<noteq> []" and "pad_token_id tk = Some p"
  shows "dataset_transform batch tk =
     Inr [''input_ids'' \<mapsto> map (padded_ids tk 512 p ps) ps,
          ''attention_mask'' \<mapsto> map (padded_mask tk 512 ps) ps,
          ''labels'' \<mapsto> map (\<lambda>t. ignore_padding (padded_ids tk 512 p ps t) (padded_mask tk 512 ps t)) ps]"
proof -
  have mf: "masked_fill_zero (map (padded_ids tk 512 p ps) ps) (map (padded_mask tk 512 ps) ps) (- 100)
      = Inr (map (\<lambda>t. ignore_padding (padded_ids tk 512 p ps t) (padded_mask tk 512 ps t)) ps)"
    by (rule masked_fill_zero_map) (simp add: length_padded_ids length_padded_mask)
  show ?thesis
    by (simp add: dataset_transform_def assms(1) tokenizer_call_Some[OF assms(3,2)] mf)
qed

lemma dataset_transform_no_prompt:
  assumes "batch ''prompt'' = None"
  shows "dataset_transform batch tk = Inl (KeyError ''prompt'')"
  using assms by (simp add: dataset_transform_def)

lemma dataset_transform_empty:
  assumes "batch ''prompt'' = Some []" and "pad_token_id tk = Some p"
  shows "dataset_transform batch tk = Inl (ValueError ''empty batch'')"
  by (simp add: dataset_transform_def assms(1) tokenizer_call_empty[OF assms(2)])

lemma dataset_transform_no_pad:
  assumes "batch ''prompt'' = Some ps" and "pad_token_id tk = None"
  shows "dataset_transform batch tk = Inl (ValueError ''pad_token'')"
  by (simp add: dataset_transform_def assms(1) tokenizer_call_None[OF assms(2)])

lemma transform_cell:
  assumes i: "i < length ps" and j: "j < tokenized_width tk 512 ps"
  shows "map (padded_mask tk 512 ps) ps ! i ! j = 0 \<or> map (padded_mask tk 512 ps) ps ! i ! j = 1"
    and "0 \<le> map (padded_ids tk 512 p ps) ps ! i ! j"
    and "map (padded_mask tk 512 ps) ps ! i ! j = 0 \<Longrightarrow> map (padded_ids tk 512 p ps) ps ! i ! j = int p"
    and "map (\<lambda>t. ignore_padding (padded_ids tk 512 p ps t) (padded_mask tk 512 ps t)) ps ! i ! j =
         (if map (padded_mask tk 512 ps) ps ! i ! j = 0 then - 100
          else map (padded_ids tk 512 p ps) ps ! i ! j)"
proof -
  from i have t: "ps ! i \<in> set ps" by simp
  show "map (padded_mask tk 512 ps) ps ! i ! j = 0 \<or> map (padded_mask tk 512 ps) ps ! i ! j = 1"
    using padded_mask_cell[OF t j] i by simp
  show "0 \<le> map (padded_ids tk 512 p ps) ps ! i ! j"
    using padded_ids_nonneg[OF t j, of p] i by simp
  show "map (padded_mask tk 512 ps) ps ! i ! j = 0 \<Longrightarrow> map (padded_ids tk 512 p ps) ps ! i ! j = int p"
    using padded_ids_fill[OF t j, of p] i by simp
  have "ignore_padding (padded_ids tk 512 p ps (ps ! i)) (padded_mask tk 512 ps (ps ! i)) ! j =
      (if padded_mask tk 512 ps (ps ! i) ! j = 0 then - 100 else padded_ids tk 512 p ps (ps ! i) ! j)"
    by (rule ignore_padding_nth) (simp_all add: length_padded_ids[OF t] length_padded_mask[OF t] j)
  then show "map (\<lambda>t. ignore_padding (padded_ids tk 512 p ps t) (padded_mask tk 512 ps t)) ps ! i ! j =
         (if map (padded_mask tk 512 ps) ps ! i ! j = 0 then - 100
          else map (padded_ids tk 512 p ps) ps ! i ! j)"
    using i by simp
qed

lemma transform_row_lengths:
  assumes i: "i < length ps"
  shows "length (map (padded_ids tk 512 p ps) ps ! i) = tokenized_width tk 512 ps"
    and "length (map (padded_mask tk 512 ps) ps ! i) = tokenized_width tk 512 ps"
    and "length (map (\<lambda>t. ignore_padding (padded_ids tk 512 p ps t) (padded_mask tk 512 ps t)) ps ! i)
           = tokenized_width tk 512 ps"
proof -
  from i have t: "ps ! i \<in> set ps" by simp
  show "length (map (padded_ids tk 512 p ps) ps ! i) = tokenized_width tk 512 ps"
    using i by (simp add: length_padded_ids[OF t])
  show "length (map (padded_mask tk 512 ps) ps ! i) = tokenized_width tk 512 ps"
    using i by (simp add: length_padded_mask[OF t])
  show "length (map (\<lambda>t. ignore_padding (padded_ids tk 512 p ps t) (padded_mask tk 512 ps t)) ps ! i)
           = tokenized_width tk 512 ps"
    using i by (simp add: length_ignore_padding length_padded_ids[OF t] length_padded_mask[OF t])
qed

lemma transform_shapes:
  shows "map length (map (padded_mask tk 512 ps) ps) = map length (map (padded_ids tk 512 p ps) ps)"
    and "map length (map (\<lambda>t. ignore_padding (padded_ids tk 512 p ps t) (padded_mask tk 512 ps t)) ps)
           = map length (map (padded_ids tk 512 p ps) ps)"
  by (simp_all add: length_ignore_padding length_padded_ids length_padded_mask)

lemma sample_tokenizer_call:
  "tokenizer_call byte_tokenizer [''ab'', ''c''] (Some 512) =
     Inr \<lparr>input_ids = [[97, 98], [99, 0]], attention_mask = [[1, 1], [1, 0]]\<rparr>"
  by (simp add: byte_tokenizer_def tokenizer_call_def longest_def pad_row_def Let_def)

lemma sample_transform:
  "dataset_transform sample_batch byte_tokenizer =
     Inr [''input_ids'' \<mapsto> [[97, 98], [99, 0]],
          ''attention_mask'' \<mapsto> [[1, 1], [1, 0]],
          ''labels'' \<mapsto> [[97, 98], [99, - 100]]]"
  by (simp add: dataset_transform_def sample_batch_def byte_tokenizer_def tokenizer_call_def
      masked_fill_zero_def longest_def pad_row_def Let_def)

lemma transform_output_labels:
  assumes "[''input_ids'' \<mapsto> ids, ''attention_mask'' \<mapsto> msk, ''labels'' \<mapsto> ls] =
           [''input_ids'' \<mapsto> ids', ''attention_mask'' \<mapsto> msk', ''labels'' \<mapsto> (ls' :: int list list)]"
  shows "ls = ls'"
proof -
  from assms have "[''input_ids'' \<mapsto> ids, ''attention_mask'' \<mapsto> msk, ''labels'' \<mapsto> ls] ''labels'' =
           [''input_ids'' \<mapsto> ids', ''attention_mask'' \<mapsto> msk', ''labels'' \<mapsto> ls'] ''labels''"
    by (rule fun_cong)
  then show ?thesis by simp
qed

lemma tokenized_width_eq_padded_length:
  assumes "ps \<noteq> []"
  shows "tokenized_width tk 512 ps = padded_length tk ps"
proof -
  have "longest (map (\<lambda>t. take 512 (encode tk t)) ps)
      = Max (length ` set (map (\<lambda>t. take 512 (encode tk t)) ps))"
    by (rule longest_Max) (use assms in simp)
  also have "length ` set (map (\<lambda>t. take 512 (encode tk t)) ps)
      = set (map (\<lambda>t. min 512 (length (encode tk t))) ps)"
    by (simp add: image_image min.commute)
  finally show ?thesis by (simp only: padded_length_def tokenized_width_def)
qed

lemma transform_rows_width:
  assumes "row \<in> set (map (padded_ids tk 512 p ps) ps) \<union> set (map (padded_mask tk 512 ps) ps)
             \<union> set (map (\<lambda>t. ignore_padding (padded_ids tk 512 p ps t) (padded_mask tk 512 ps t)) ps)"
  shows "length row = tokenized_width tk 512 ps"
proof -
  from assms obtain t where t: "t \<in> set ps"
    and r: "row = padded_ids tk 512 p ps t \<or> row = padded_mask tk 512 ps t
            \<or> row = ignore_padding (padded_ids tk 512 p ps t) (padded_mask tk 512 ps t)"
    by auto
  from r show ?thesis
    by (auto simp: length_padded_ids[OF t] length_padded_mask[OF t] length_ignore_padding)
qed

text \<open>
  C1.  For a batch with at least one prompt and a tokenizer with a pad token,
  \<^verbatim>\<open>dataset_transform\<close> returns its dict.  There \<^verbatim>\<open>input_ids\<close> and
  \<^verbatim>\<open>attention_mask\<close> are the two tensors the tokenizer returned for the prompts, the
  labels have the same shape, one row per prompt and each row of the padded length of the
  batch; the attention mask is 0 at a position exactly when the label at that position is
  the ignore value -100, and at every other position the label is the token id.
\<close>
theorem dataset_transform_mask_zero_iff_ignore:
  assumes "batch ''prompt'' = Some ps" and "ps \<noteq> []" and "pad_token_id tk = Some p"
  shows "\<exists>ids msk ls.
     tokenizer_call tk ps (Some 512) = Inr \<lparr>input_ids = ids, attention_mask = msk\<rparr> \<and>
     dataset_transform batch tk =
       Inr [''input_ids'' \<mapsto> ids, ''attention_mask'' \<mapsto> msk, ''labels'' \<mapsto> ls] \<and>
     length ls = length ps \<and>
     map length msk = map length ls \<and> map length ids = map length ls \<and>
     (\<forall>i<length ls. length (ls ! i) = padded_length tk ps) \<and>
     (\<forall>i<length ls. \<forall>j<length (ls ! i).
        (msk ! i ! j = 0 \<longleftrightarrow> ls ! i ! j = - 100) \<and>
        (msk ! i ! j \<noteq> 0 \<longrightarrow> ls ! i ! j = ids ! i ! j))"
proof -
  let ?ids = "map (padded_ids tk 512 p ps) ps"
  let ?msk = "map (padded_mask tk 512 ps) ps"
  let ?ls = "map (\<lambda>t. ignore_padding (padded_ids tk 512 p ps t) (padded_mask tk 512 ps t)) ps"
  have tc: "tokenizer_call tk ps (Some 512) = Inr \<lparr>input_ids = ?ids, attention_mask = ?msk\<rparr>"
    by (rule tokenizer_call_Some[OF assms(3,2)])
  have dt: "dataset_transform batch tk =
       Inr [''input_ids'' \<mapsto> ?ids, ''attention_mask'' \<mapsto> ?msk, ''labels'' \<mapsto> ?ls]"
    by (rule dataset_transform_Some[of batch ps tk p, OF assms])
  have n: "length ?ls = length ps" by simp
  have s1: "map length ?msk = map length ?ls"
    by (simp only: transform_shapes)
  have s2: "map length ?ids = map length ?ls"
    by (simp only: transform_shapes)
  have w: "\<forall>i<length ?ls. length (?ls ! i) = padded_length tk ps"
  proof (intro allI impI)
    fix i assume "i < length ?ls"
    then have i: "i < length ps" by simp
    show "length (?ls ! i) = padded_length tk ps"
      by (simp only: transform_row_lengths(3)[OF i] tokenized_width_eq_padded_length[OF assms(2)])
  qed
  have cells: "\<forall>i<length ?ls. \<forall>j<length (?ls ! i).
        (?msk ! i ! j = 0 \<longleftrightarrow> ?ls ! i ! j = - 100) \<and>
        (?msk ! i ! j \<noteq> 0 \<longrightarrow> ?ls ! i ! j = ?ids ! i ! j)"
  proof (intro allI impI)
    fix i j assume "i < length ?ls" and jl: "j < length (?ls ! i)"
    then have i: "i < length ps" by simp
    from jl have j: "j < tokenized_width tk 512 ps"
      by (simp only: transform_row_lengths(3)[OF i])
    have nn: "0 \<le> ?ids ! i ! j" by (rule transform_cell(2)[OF i j])
    have l: "?ls ! i ! j = (if ?msk ! i ! j = 0 then - 100 else ?ids ! i ! j)"
      by (rule transform_cell(4)[OF i j])
    show "(?msk ! i ! j = 0 \<longleftrightarrow> ?ls ! i ! j = - 100) \<and>
        (?msk ! i ! j \<noteq> 0 \<longrightarrow> ?ls ! i ! j = ?ids ! i ! j)"
      unfolding l using nn by auto
  qed
  show ?thesis
    by (rule exI[of _ ?ids], rule exI[of _ ?msk], rule exI[of _ ?ls])
       (rule conjI[OF tc conjI[OF dt conjI[OF n conjI[OF s1 conjI[OF s2 conjI[OF w cells]]]]]])
qed

text \<open>
  C5.  For a batch with at least one prompt and a tokenizer with a pad token,
  \<^verbatim>\<open>dataset_transform\<close> returns its dict.  There \<^verbatim>\<open>input_ids\<close> and
  \<^verbatim>\<open>attention_mask\<close> are the two tensors the tokenizer returned for the prompts, one row
  per prompt and each row of the padded length of the batch, the labels have the same
  shape, and wherever the attention mask is 1 the label equals the token id at that
  position of \<^verbatim>\<open>input_ids\<close>.
\<close>
theorem dataset_transform_attended_label_is_token:
  assumes "batch ''prompt'' = Some ps" and "ps \<noteq> []" and "pad_token_id tk = Some p"
  shows "\<exists>ids msk ls.
     tokenizer_call tk ps (Some 512) = Inr \<lparr>input_ids = ids, attention_mask = msk\<rparr> \<and>
     dataset_transform batch tk =
       Inr [''input_ids'' \<mapsto> ids, ''attention_mask'' \<mapsto> msk, ''labels'' \<mapsto> ls] \<and>
     length ids = length ps \<and>
     map length msk = map length ids \<and> map length ls = map length ids \<and>
     (\<forall>i<length ids. length (ids ! i) = padded_length tk ps) \<and>
     (\<forall>i<length ids. \<forall>j<length (ids ! i). msk ! i ! j = 1 \<longrightarrow> ls ! i ! j = ids ! i ! j)"
proof -
  let ?ids = "map (padded_ids tk 512 p ps) ps"
  let ?msk = "map (padded_mask tk 512 ps) ps"
  let ?ls = "map (\<lambda>t. ignore_padding (padded_ids tk 512 p ps t) (padded_mask tk 512 ps t)) ps"
  have tc: "tokenizer_call tk ps (Some 512) = Inr \<lparr>input_ids = ?ids, attention_mask = ?msk\<rparr>"
    by (rule tokenizer_call_Some[OF assms(3,2)])
  have dt: "dataset_transform batch tk =
       Inr [''input_ids'' \<mapsto> ?ids, ''attention_mask'' \<mapsto> ?msk, ''labels'' \<mapsto> ?ls]"
    by (rule dataset_transform_Some[of batch ps tk p, OF assms])
  have n: "length ?ids = length ps" by simp
  have s1: "map length ?msk = map length ?ids"
    by (rule transform_shapes(1))
  have s2: "map length ?ls = map length ?ids"
    by (rule transform_shapes(2))
  have w: "\<forall>i<length ?ids. length (?ids ! i) = padded_length tk ps"
  proof (intro allI impI)
    fix i assume "i < length ?ids"
    then have i: "i < length ps" by simp
    show "length (?ids ! i) = padded_length tk ps"
      by (simp only: transform_row_lengths(1)[OF i] tokenized_width_eq_padded_length[OF assms(2)])
  qed
  have cells: "\<forall>i<length ?ids. \<forall>j<length (?ids ! i). ?msk ! i ! j = 1 \<longrightarrow> ?ls ! i ! j = ?ids ! i ! j"
  proof (intro allI impI)
    fix i j assume "i < length ?ids" and jl: "j < length (?ids ! i)" and m: "?msk ! i ! j = 1"
    then have i: "i < length ps" by simp
    from jl have j: "j < tokenized_width tk 512 ps"
      by (simp only: transform_row_lengths(1)[OF i])
    have l: "?ls ! i ! j = (if ?msk ! i ! j = 0 then - 100 else ?ids ! i ! j)"
      by (rule transform_cell(4)[OF i j])
    show "?ls ! i ! j = ?ids ! i ! j" unfolding l using m by simp
  qed
  show ?thesis
    by (rule exI[of _ ?ids], rule exI[of _ ?msk], rule exI[of _ ?ls])
       (rule conjI[OF tc conjI[OF dt conjI[OF n conjI[OF s1 conjI[OF s2 conjI[OF w cells]]]]]])
qed

text \<open>
  C4.  For a non-empty batch, \<^verbatim>\<open>dataset_transform\<close> returns one row per prompt in each of
  its three tensors, and every row of every tensor has the padded length of the batch: the
  length of the longest tokenized prompt, each prompt counted up to 512 tokens.
\<close>
theorem dataset_transform_common_padded_length:
  assumes "batch ''prompt'' = Some ps" and "ps \<noteq> []" and "pad_token_id tk = Some p"
  shows "\<exists>ids msk ls.
     dataset_transform batch tk =
       Inr [''input_ids'' \<mapsto> ids, ''attention_mask'' \<mapsto> msk, ''labels'' \<mapsto> ls] \<and>
     length ids = length ps \<and> length msk = length ps \<and> length ls = length ps \<and>
     (\<forall>row \<in> set ids \<union> set msk \<union> set ls. length row = padded_length tk ps)"
proof -
  let ?ids = "map (padded_ids tk 512 p ps) ps"
  let ?msk = "map (padded_mask tk 512 ps) ps"
  let ?ls = "map (\<lambda>t. ignore_padding (padded_ids tk 512 p ps t) (padded_mask tk 512 ps t)) ps"
  have dt: "dataset_transform batch tk =
       Inr [''input_ids'' \<mapsto> ?ids, ''attention_mask'' \<mapsto> ?msk, ''labels'' \<mapsto> ?ls]"
    by (rule dataset_transform_Some[of batch ps tk p, OF assms])
  have l1: "length ?ids = length ps" and l2: "length ?msk = length ps" and l3: "length ?ls = length ps"
    by simp_all
  have rows: "\<forall>row \<in> set ?ids \<union> set ?msk \<union> set ?ls. length row = padded_length tk ps"
  proof
    fix row assume "row \<in> set ?ids \<union> set ?msk \<union> set ?ls"
    then have "length row = tokenized_width tk 512 ps" by (rule transform_rows_width)
    then show "length row = padded_length tk ps"
      by (simp only: tokenized_width_eq_padded_length[OF assms(2)])
  qed
  show ?thesis
    by (rule exI[of _ ?ids], rule exI[of _ ?msk], rule exI[of _ ?ls])
       (rule conjI[OF dt conjI[OF l1 conjI[OF l2 conjI[OF l3 rows]]]])
qed



lemma dataset_transform_Inr_cases:
  assumes "dataset_transform batch tk = Inr out"
  obtains ps p where "batch ''prompt'' = Some ps" and "ps \<noteq> []" and "pad_token_id tk = Some p"
proof (cases "batch ''prompt''")
  case None
  with assms show ?thesis by (simp add: dataset_transform_no_prompt)
next
  case (Some ps)
  show ?thesis
  proof (cases "pad_token_id tk")
    case None
    with assms Some show ?thesis by (simp add: dataset_transform_no_pad)
  next
    case (Some p)
    show ?thesis
    proof (cases "ps = []")
      case True
      with assms \<open>batch ''prompt'' = Some ps\<close> Some show ?thesis
        by (simp add: dataset_transform_empty)
    next
      case False
      with \<open>batch ''prompt'' = Some ps\<close> Some that show ?thesis by blast
    qed
  qed
qed


lemma tokenizer_call_default_bound:
  "tokenizer_call byte_tokenizer [''abcdef''] None =
     Inr \<lparr>input_ids = [[97, 98, 99, 100]], attention_mask = [[1, 1, 1, 1]]\<rparr>"
  by (simp add: byte_tokenizer_def tokenizer_call_def longest_def pad_row_def Let_def)

lemma empty_batch_raises:
  "dataset_transform [''prompt'' \<mapsto> []] byte_tokenizer = Inl (ValueError ''empty batch'')"
  by (rule dataset_transform_empty[where p = 0]) (simp_all add: byte_tokenizer_def)

theorem dataset_transform_mask_zero_iff_ignore_witness:
  "sample_batch ''prompt'' = Some [''ab'', ''c''] \<and> [''ab'', ''c''] \<noteq> [] \<and>
   pad_token_id byte_tokenizer = Some 0 \<and>
   dataset_transform sample_batch byte_tokenizer =
     Inr [''input_ids'' \<mapsto> [[97, 98], [99, 0]],
          ''attention_mask'' \<mapsto> [[1, 1], [1, 0]],
          ''labels'' \<mapsto> [[97, 98], [99, - 100]]] \<and>
   [[1, 1], [1, 0 :: int]] ! 1 ! 1 = 0 \<and>
   [[97, 98], [99, - 100 :: int]] ! 1 ! 1 = - 100 \<and>
   [[1, 1], [1, 0 :: int]] ! 0 ! 1 \<noteq> 0 \<and>
   [[97, 98], [99, - 100 :: int]] ! 0 ! 1 = [[97, 98], [99, 0]] ! 0 ! 1"
proof -
  have h1: "sample_batch ''prompt'' = Some [''ab'', ''c'']" by (simp add: sample_batch_def)
  have h2: "[''ab'', ''c''] \<noteq> []" by simp
  have h3: "pad_token_id byte_tokenizer = Some 0" by (simp add: byte_tokenizer_def)
  from dataset_transform_mask_zero_iff_ignore[of sample_batch "[''ab'', ''c'']" byte_tokenizer 0,
      OF h1 h2 h3]
  obtain ids msk ls :: "int list list" where
    tc: "tokenizer_call byte_tokenizer [''ab'', ''c''] (Some 512) =
           Inr \<lparr>input_ids = ids, attention_mask = msk\<rparr>"
    and dt: "dataset_transform sample_batch byte_tokenizer =
       Inr [''input_ids'' \<mapsto> ids, ''attention_mask'' \<mapsto> msk, ''labels'' \<mapsto> ls]"
    and n: "length ls = length [''ab'', ''c'']"
    and w: "\<forall>i<length ls. length (ls ! i) = padded_length byte_tokenizer [''ab'', ''c'']"
    and cells: "\<forall>i<length ls. \<forall>j<length (ls ! i).
        (msk ! i ! j = 0 \<longleftrightarrow> ls ! i ! j = - 100) \<and>
        (msk ! i ! j \<noteq> 0 \<longrightarrow> ls ! i ! j = ids ! i ! j)"
    by blast
  from tc have ids: "ids = [[97, 98], [99, 0]]" and msk: "msk = [[1, 1], [1, 0]]"
    by (simp_all add: sample_tokenizer_call)
  have pl: "padded_length byte_tokenizer [''ab'', ''c''] = 2"
    by (simp add: padded_length_def byte_tokenizer_def)
  from n have i0: "0 < length ls" and i1: "1 < length ls" by simp_all
  from w[rule_format, OF i0] pl have j0: "1 < length (ls ! 0)" by simp
  from w[rule_format, OF i1] pl have j1: "1 < length (ls ! 1)" by simp
  from cells[rule_format, OF i1 j1] have c11: "(msk ! 1 ! 1 = 0 \<longleftrightarrow> ls ! 1 ! 1 = - 100)"
    by (rule conjunct1)
  from cells[rule_format, OF i0 j0] have c01: "msk ! 0 ! 1 \<noteq> 0 \<longrightarrow> ls ! 0 ! 1 = ids ! 0 ! 1"
    by (rule conjunct2)
  have "Inr [''input_ids'' \<mapsto> ids, ''attention_mask'' \<mapsto> msk, ''labels'' \<mapsto> ls] =
        (Inr [''input_ids'' \<mapsto> [[97, 98], [99, 0]],
              ''attention_mask'' \<mapsto> [[1, 1], [1, 0]],
              ''labels'' \<mapsto> [[97, 98], [99, - 100]]] :: error + (string \<rightharpoonup> int list list))"
    by (rule trans[OF dt[symmetric] sample_transform])
  then have "[''input_ids'' \<mapsto> ids, ''attention_mask'' \<mapsto> msk, ''labels'' \<mapsto> ls] =
        [''input_ids'' \<mapsto> [[97, 98], [99, 0]],
         ''attention_mask'' \<mapsto> [[1, 1], [1, 0]],
         ''labels'' \<mapsto> [[97, 98], [99, - 100]]]"
    by (simp only: sum.inject)
  then have lsv: "ls = [[97, 98], [99, - 100]]" by (rule transform_output_labels)
  have m11: "[[1, 1], [1, 0 :: int]] ! 1 ! 1 = 0" by simp
  have m01: "[[1, 1], [1, 0 :: int]] ! 0 ! 1 \<noteq> 0" by simp
  from c11 m11 have v11: "[[97, 98], [99, - 100 :: int]] ! 1 ! 1 = - 100"
    unfolding msk lsv by blast
  from c01 m01 have v01: "[[97, 98], [99, - 100 :: int]] ! 0 ! 1 = [[97, 98], [99, 0]] ! 0 ! 1"
    unfolding msk lsv ids by blast
  have d: "dataset_transform sample_batch byte_tokenizer =
     Inr [''input_ids'' \<mapsto> [[97, 98], [99, 0]],
          ''attention_mask'' \<mapsto> [[1, 1], [1, 0]],
          ''labels'' \<mapsto> [[97, 98], [99, - 100]]]"
    using dt unfolding ids msk lsv .
  show ?thesis
    by (rule conjI[OF h1 conjI[OF h2 conjI[OF h3 conjI[OF d conjI[OF m11 conjI[OF v11
          conjI[OF m01 v01]]]]]]])
qed

theorem dataset_transform_attended_label_is_token_witness:
  "sample_batch ''prompt'' = Some [''ab'', ''c''] \<and> [''ab'', ''c''] \<noteq> [] \<and>
   pad_token_id byte_tokenizer = Some 0 \<and>
   dataset_transform sample_batch byte_tokenizer =
     Inr [''input_ids'' \<mapsto> [[97, 98], [99, 0]],
          ''attention_mask'' \<mapsto> [[1, 1], [1, 0]],
          ''labels'' \<mapsto> [[97, 98], [99, - 100]]] \<and>
   [[1, 1], [1, 0 :: int]] ! 1 ! 0 = 1 \<and>
   [[97, 98], [99, - 100 :: int]] ! 1 ! 0 = [[97, 98], [99, 0]] ! 1 ! 0 \<and>
   [[97, 98], [99, 0 :: int]] ! 1 ! 0 = 99"
proof -
  have h1: "sample_batch ''prompt'' = Some [''ab'', ''c'']" by (simp add: sample_batch_def)
  have h2: "[''ab'', ''c''] \<noteq> []" by simp
  have h3: "pad_token_id byte_tokenizer = Some 0" by (simp add: byte_tokenizer_def)
  from dataset_transform_attended_label_is_token[of sample_batch "[''ab'', ''c'']" byte_tokenizer 0,
      OF h1 h2 h3]
  obtain ids msk ls where
    tc: "tokenizer_call byte_tokenizer [''ab'', ''c''] (Some 512) =
           Inr \<lparr>input_ids = ids, attention_mask = msk\<rparr>"
    and dt: "dataset_transform sample_batch byte_tokenizer =
       Inr [''input_ids'' \<mapsto> ids, ''attention_mask'' \<mapsto> msk, ''labels'' \<mapsto> ls]"
    and cells: "\<forall>i<length ids. \<forall>j<length (ids ! i). msk ! i ! j = 1 \<longrightarrow> ls ! i ! j = ids ! i ! j"
    by blast
  from tc have ids: "ids = [[97, 98], [99, 0]]" and msk: "msk = [[1, 1], [1, 0]]"
    by (simp_all add: sample_tokenizer_call)
  have "Inr [''input_ids'' \<mapsto> ids, ''attention_mask'' \<mapsto> msk, ''labels'' \<mapsto> ls] =
        (Inr [''input_ids'' \<mapsto> [[97, 98], [99, 0]],
              ''attention_mask'' \<mapsto> [[1, 1], [1, 0]],
              ''labels'' \<mapsto> [[97, 98], [99, - 100]]] :: error + (string \<rightharpoonup> int list list))"
    by (rule trans[OF dt[symmetric] sample_transform])
  then have "[''input_ids'' \<mapsto> ids, ''attention_mask'' \<mapsto> msk, ''labels'' \<mapsto> ls] =
        [''input_ids'' \<mapsto> [[97, 98], [99, 0]],
         ''attention_mask'' \<mapsto> [[1, 1], [1, 0]],
         ''labels'' \<mapsto> [[97, 98], [99, - 100]]]"
    by (simp only: sum.inject)
  then have lsv: "ls = [[97, 98], [99, - 100]]" by (rule transform_output_labels)
  have i1: "1 < length ids" and j0: "0 < length (ids ! 1)" unfolding ids by simp_all
  have c10: "msk ! 1 ! 0 = 1 \<longrightarrow> ls ! 1 ! 0 = ids ! 1 ! 0"
    by (rule impI) (rule cells[rule_format, OF i1 j0])
  have m10: "[[1, 1], [1, 0 :: int]] ! 1 ! 0 = 1" by simp
  from c10 m10 have v10: "[[97, 98], [99, - 100 :: int]] ! 1 ! 0 = [[97, 98], [99, 0]] ! 1 ! 0"
    unfolding msk lsv ids by blast
  have t10: "[[97, 98], [99, 0 :: int]] ! 1 ! 0 = 99" by simp
  have d: "dataset_transform sample_batch byte_tokenizer =
     Inr [''input_ids'' \<mapsto> [[97, 98], [99, 0]],
          ''attention_mask'' \<mapsto> [[1, 1], [1, 0]],
          ''labels'' \<mapsto> [[97, 98], [99, - 100]]]"
    using dt unfolding ids msk lsv .
  show ?thesis
    by (rule conjI[OF h1 conjI[OF h2 conjI[OF h3 conjI[OF d conjI[OF m10 conjI[OF v10 t10]]]]]])
qed

theorem dataset_transform_common_padded_length_witness:
  "sample_batch ''prompt'' = Some [''ab'', ''c''] \<and> [''ab'', ''c''] \<noteq> [] \<and>
   pad_token_id byte_tokenizer = Some 0 \<and> padded_length byte_tokenizer [''ab'', ''c''] = 2 \<and>
   (\<exists>ids msk ls.
     dataset_transform sample_batch byte_tokenizer =
       Inr [''input_ids'' \<mapsto> ids, ''attention_mask'' \<mapsto> msk, ''labels'' \<mapsto> ls] \<and>
     length ids = length [''ab'', ''c''] \<and> length msk = length [''ab'', ''c''] \<and>
     length ls = length [''ab'', ''c''] \<and>
     (\<forall>row \<in> set ids \<union> set msk \<union> set ls. length row = padded_length byte_tokenizer [''ab'', ''c'']))"
proof -
  have h1: "sample_batch ''prompt'' = Some [''ab'', ''c'']" by (simp add: sample_batch_def)
  have h2: "[''ab'', ''c''] \<noteq> []" by simp
  have h3: "pad_token_id byte_tokenizer = Some 0" by (simp add: byte_tokenizer_def)
  have h4: "padded_length byte_tokenizer [''ab'', ''c''] = 2"
    by (simp add: padded_length_def byte_tokenizer_def)
  show ?thesis
    by (rule conjI[OF h1 conjI[OF h2 conjI[OF h3 conjI[OF h4
          dataset_transform_common_padded_length[of sample_batch "[''ab'', ''c'']" byte_tokenizer 0, OF h1 h2 h3]]]]])
qed


lemma load_data_local:
  assumes "load_from_disk env (data_path da) = Inr d"
  shows "load_data env da tr = (Inr (select_train d), tr @ [EvLoadFromDisk (data_path da)])"
  using assms by (simp add: load_data_def try_except_def and_then_def call_def step_def)

lemma load_data_hub:
  assumes "load_from_disk env (data_path da) = Inl e"
  shows "load_data env da tr =
     ((case load_dataset env (data_path da) ''train'' of Inl e' \<Rightarrow> Inl e' | Inr ds \<Rightarrow> Inr (Dataset ds)),
      tr @ [EvLoadFromDisk (data_path da), EvLoadDataset (data_path da) ''train''])"
  using assms
  by (cases "load_dataset env (data_path da) ''train''")
     (simp_all add: load_data_def try_except_def and_then_def call_def step_def)

lemma select_train_present:
  "map_of splits ''train'' = Some ds \<Longrightarrow> select_train (DatasetDict splits) = Dataset ds"
  by (simp add: select_train_def)

text \<open>
  C2.  Loading the dataset first calls the local loader on \<^verbatim>\<open>data_path\<close>.  When that
  call succeeds the result is what it loaded, narrowed to the split \<^verbatim>\<open>"train"\<close> when the
  loaded dict has one, and the hub is not called; the hub is called, for the split
  \<^verbatim>\<open>"train"\<close> of the same path, exactly when the local call failed.
\<close>
theorem load_data_local_first_hub_on_failure:
  "\<exists>new. snd (load_data env da tr) = tr @ EvLoadFromDisk (data_path da) # new \<and>
     (\<forall>p s. EvLoadDataset p s \<in> set new \<longleftrightarrow>
        (isl (load_from_disk env (data_path da)) \<and> p = data_path da \<and> s = ''train'')) \<and>
     (\<forall>d. load_from_disk env (data_path da) = Inr d \<longrightarrow>
        new = [] \<and> fst (load_data env da tr) = Inr (select_train d)) \<and>
     (\<forall>splits ds. map_of splits ''train'' = Some ds \<longrightarrow>
        select_train (DatasetDict splits) = Dataset ds) \<and>
     (\<forall>e. load_from_disk env (data_path da) = Inl e \<longrightarrow>
        new = [EvLoadDataset (data_path da) ''train''] \<and>
        fst (load_data env da tr) =
          (case load_dataset env (data_path da) ''train'' of
             Inl e' \<Rightarrow> Inl e' | Inr ds \<Rightarrow> Inr (Dataset ds)))"
proof (cases "load_from_disk env (data_path da)")
  case (Inl e)
  show ?thesis
    by (rule exI[of _ "[EvLoadDataset (data_path da) ''train'']"])
       (auto simp: load_data_hub[OF Inl] Inl select_train_present)
next
  case (Inr d)
  show ?thesis
    by (rule exI[of _ "[]"]) (auto simp: load_data_local[OF Inr] Inr select_train_present)
qed


lemma sample_env_load_from_disk:
  "load_from_disk sample_env (data_path sample_data_arguments) =
     Inr (DatasetDict [(''train'', sample_dataset), (''validation'', small_dataset)])"
  by (simp add: sample_env_def)

lemma hub_env_load_from_disk:
  "load_from_disk hub_env (data_path sample_data_arguments) =
     Inl (ExternalError ''not a dataset directory'')"
  by (simp add: hub_env_def)

lemma hub_env_load_dataset:
  "load_dataset hub_env (data_path sample_data_arguments) ''train'' = Inr small_dataset"
  by (simp add: hub_env_def)

theorem load_data_local_first_hub_on_failure_witness:
  "load_from_disk sample_env (data_path sample_data_arguments) =
     Inr (DatasetDict [(''train'', sample_dataset), (''validation'', small_dataset)]) \<and>
   map_of [(''train'', sample_dataset), (''validation'', small_dataset)] ''train'' = Some sample_dataset \<and>
   load_data sample_env sample_data_arguments [] =
     (Inr (Dataset sample_dataset), [EvLoadFromDisk (data_path sample_data_arguments)]) \<and>
   load_from_disk hub_env (data_path sample_data_arguments) =
     Inl (ExternalError ''not a dataset directory'') \<and>
   load_data hub_env sample_data_arguments [] =
     (Inr (Dataset small_dataset),
      [EvLoadFromDisk (data_path sample_data_arguments),
       EvLoadDataset (data_path sample_data_arguments) ''train''])"
proof -
  note l = sample_env_load_from_disk
  have m: "map_of [(''train'', sample_dataset), (''validation'', small_dataset)] ''train''
             = Some sample_dataset"
    by simp
  from load_data_local_first_hub_on_failure[of sample_env sample_data_arguments "[]"]
  obtain new where
    t1: "snd (load_data sample_env sample_data_arguments []) =
           [] @ EvLoadFromDisk (data_path sample_data_arguments) # new"
    and s1: "\<forall>d. load_from_disk sample_env (data_path sample_data_arguments) = Inr d \<longrightarrow>
        new = [] \<and> fst (load_data sample_env sample_data_arguments []) = Inr (select_train d)"
    and c1: "\<forall>splits ds. map_of splits ''train'' = Some (ds :: nat dataset) \<longrightarrow>
        select_train (DatasetDict splits) = Dataset ds"
    by blast
  from s1 l have n1: "new = []"
    and f1: "fst (load_data sample_env sample_data_arguments []) =
       Inr (select_train (DatasetDict [(''train'', sample_dataset), (''validation'', small_dataset)]))"
    by blast+
  from c1 m have "select_train (DatasetDict [(''train'', sample_dataset), (''validation'', small_dataset)])
      = Dataset sample_dataset"
    by blast
  with f1 t1 n1 have r1: "load_data sample_env sample_data_arguments [] =
     (Inr (Dataset sample_dataset), [EvLoadFromDisk (data_path sample_data_arguments)])"
    by (simp add: prod_eq_iff)
  note h = hub_env_load_from_disk
  from load_data_local_first_hub_on_failure[of hub_env sample_data_arguments "[]"]
  obtain new' where
    t2: "snd (load_data hub_env sample_data_arguments []) =
           [] @ EvLoadFromDisk (data_path sample_data_arguments) # new'"
    and s2: "\<forall>e. load_from_disk hub_env (data_path sample_data_arguments) = Inl e \<longrightarrow>
        new' = [EvLoadDataset (data_path sample_data_arguments) ''train''] \<and>
        fst (load_data hub_env sample_data_arguments []) =
          (case load_dataset hub_env (data_path sample_data_arguments) ''train'' of
             Inl e' \<Rightarrow> Inl e' | Inr ds \<Rightarrow> Inr (Dataset ds))"
    by blast
  from s2 h have n2: "new' = [EvLoadDataset (data_path sample_data_arguments) ''train'']"
    and f2: "fst (load_data hub_env sample_data_arguments []) =
          (case load_dataset hub_env (data_path sample_data_arguments) ''train'' of
             Inl e' \<Rightarrow> Inl e' | Inr ds \<Rightarrow> Inr (Dataset ds))"
    by blast+
  from f2 t2 n2 have r2: "load_data hub_env sample_data_arguments [] =
     (Inr (Dataset small_dataset),
      [EvLoadFromDisk (data_path sample_data_arguments),
       EvLoadDataset (data_path sample_data_arguments) ''train''])"
    by (simp add: prod_eq_iff hub_env_load_dataset)
  show ?thesis
    by (rule conjI[OF l conjI[OF m conjI[OF r1 conjI[OF h r2]]]])
qed


lemma lora_adapters_trainable:
  assumes "a \<in> set (lora_adapters cfg p)"
  shows "requires_grad a = (\<not> inference_mode cfg)"
  using assms by (auto simp: lora_adapters_def split: if_splits)

lemma get_peft_model_Inr:
  assumes "get_peft_model m cfg = Inr pm"
  shows "base_model pm = m\<lparr>parameters := map (\<lambda>p. p\<lparr>requires_grad := False\<rparr>) (parameters m)\<rparr>"
    and "adapter_parameters pm = concat (map (lora_adapters cfg) (parameters m))"
    and "adapter_parameters pm \<noteq> []"
  using assms by (auto simp: get_peft_model_def Let_def split: if_splits)

lemma get_peft_model_targeted:
  assumes "p \<in> set (parameters m)" and "in_module p \<in> set (target_modules cfg)"
  shows "\<exists>pm. get_peft_model m cfg = Inr pm"
proof -
  from assms(2) have "lora_adapters cfg p \<noteq> []" by (simp add: lora_adapters_def)
  with assms(1) have "concat (map (lora_adapters cfg) (parameters m)) \<noteq> []" by auto
  then show ?thesis by (simp add: get_peft_model_def Let_def)
qed

lemma peft_model_frozen_base:
  assumes "get_peft_model m cfg = Inr pm" and "p \<in> set (parameters (base_model pm))"
  shows "\<not> requires_grad p"
  using assms(2) unfolding get_peft_model_Inr(1)[OF assms(1)] by auto

lemma peft_model_adapters:
  assumes "get_peft_model m cfg = Inr pm" and "a \<in> set (adapter_parameters pm)"
  shows "requires_grad a = (\<not> inference_mode cfg)"
proof -
  from assms(2) obtain p where "a \<in> set (lora_adapters cfg p)"
    unfolding get_peft_model_Inr(2)[OF assms(1)] by auto
  then show ?thesis by (rule lora_adapters_trainable)
qed

lemma peft_model_trainable_filter:
  assumes "get_peft_model m cfg = Inr pm" and "\<not> inference_mode cfg"
  shows "filter requires_grad (named_parameters (Peft pm)) = adapter_parameters pm"
proof -
  have "filter requires_grad (parameters (base_model pm)) = []"
    using peft_model_frozen_base[OF assms(1)] by (simp add: filter_empty_conv)
  moreover have "filter requires_grad (adapter_parameters pm) = adapter_parameters pm"
    using peft_model_adapters[OF assms(1)] assms(2) by (simp add: filter_id_conv)
  ultimately show ?thesis by simp
qed

lemma apply_lora_on:
  assumes "use_lora training_args"
  shows "apply_lora training_args m tr =
     (case get_peft_model (enable_input_require_grads m) peft_config of
        Inl e \<Rightarrow> (Inl e, tr @ [EvGetPeftModel])
      | Inr pm \<Rightarrow> (Inr (Peft pm), tr @ [EvGetPeftModel, EvPrintTrainableParameters]))"
  using assms
  by (cases "get_peft_model (enable_input_require_grads m) peft_config")
     (simp_all add: apply_lora_def and_then_def call_def step_def)

lemma apply_lora_off:
  assumes "\<not> use_lora training_args"
  shows "apply_lora training_args m tr = (Inr (Base m), tr)"
  using assms by (simp add: apply_lora_def step_def)

text \<open>
  C3.  With \<^verbatim>\<open>use_lora\<close> on, a wrapping that succeeds (it does as soon as the model has a
  weight in a module named \<^verbatim>\<open>W_pack\<close>) gives a model whose base parameters are those of
  the loaded model, all frozen, and whose trainable parameters are exactly the injected
  adapter parameters.  With \<^verbatim>\<open>use_lora\<close> off the model is the loaded one, unchanged, so
  parameters that were trainable stay trainable.
\<close>
theorem apply_lora_trainable_parameters:
  "(use_lora training_args \<longrightarrow>
      ((\<exists>p \<in> set (parameters m). in_module p = ''W_pack'') \<longrightarrow>
         (\<exists>pm. fst (apply_lora training_args m tr) = Inr (Peft pm))) \<and>
      (\<forall>wm. fst (apply_lora training_args m tr) = Inr wm \<longrightarrow>
         (\<exists>pm. wm = Peft pm \<and>
            map param_name (parameters (base_model pm)) = map param_name (parameters m) \<and>
            (\<forall>p \<in> set (parameters (base_model pm)). \<not> requires_grad p) \<and>
            adapter_parameters pm = concat (map (lora_adapters peft_config) (parameters m)) \<and>
            (\<forall>a \<in> set (adapter_parameters pm). requires_grad a) \<and>
            filter requires_grad (named_parameters wm) = adapter_parameters pm))) \<and>
   (\<not> use_lora training_args \<longrightarrow>
      apply_lora training_args m tr = (Inr (Base m), tr) \<and>
      named_parameters (Base m) = parameters m \<and>
      ((\<forall>p \<in> set (parameters m). requires_grad p) \<longrightarrow>
         (\<forall>p \<in> set (named_parameters (Base m)). requires_grad p)))"
proof (intro conjI impI)
  assume on: "use_lora training_args"
  let ?m = "enable_input_require_grads m"
  have pm_eq: "parameters ?m = parameters m" by (simp add: enable_input_require_grads_def)
  have inf: "\<not> inference_mode peft_config" by (simp add: peft_config_def)
  {
    assume "\<exists>p \<in> set (parameters m). in_module p = ''W_pack''"
    then obtain p where p: "p \<in> set (parameters ?m)" and "in_module p = ''W_pack''"
      unfolding pm_eq by blast
    then have "in_module p \<in> set (target_modules peft_config)" by (simp add: peft_config_def)
    from get_peft_model_targeted[OF p this] obtain pm where "get_peft_model ?m peft_config = Inr pm"
      by blast
    then have "fst (apply_lora training_args m tr) = Inr (Peft pm)"
      by (simp add: apply_lora_on[OF on])
    then show "\<exists>pm. fst (apply_lora training_args m tr) = Inr (Peft pm)" by blast
  }
  show "\<forall>wm. fst (apply_lora training_args m tr) = Inr wm \<longrightarrow>
         (\<exists>pm. wm = Peft pm \<and>
            map param_name (parameters (base_model pm)) = map param_name (parameters m) \<and>
            (\<forall>p \<in> set (parameters (base_model pm)). \<not> requires_grad p) \<and>
            adapter_parameters pm = concat (map (lora_adapters peft_config) (parameters m)) \<and>
            (\<forall>a \<in> set (adapter_parameters pm). requires_grad a) \<and>
            filter requires_grad (named_parameters wm) = adapter_parameters pm)"
  proof (intro allI impI)
    fix wm assume r: "fst (apply_lora training_args m tr) = Inr wm"
    then obtain pm where g: "get_peft_model ?m peft_config = Inr pm" and wm: "wm = Peft pm"
      by (cases "get_peft_model ?m peft_config") (simp_all add: apply_lora_on[OF on])
    have n: "map param_name (parameters (base_model pm)) = map param_name (parameters m)"
      unfolding get_peft_model_Inr(1)[OF g] by (simp add: pm_eq comp_def)
    have fr: "\<forall>p \<in> set (parameters (base_model pm)). \<not> requires_grad p"
      using peft_model_frozen_base[OF g] by blast
    have ad: "adapter_parameters pm = concat (map (lora_adapters peft_config) (parameters m))"
      using get_peft_model_Inr(2)[OF g] by (simp only: pm_eq)
    have tr: "\<forall>a \<in> set (adapter_parameters pm). requires_grad a"
      using peft_model_adapters[OF g] inf by blast
    have fi: "filter requires_grad (named_parameters wm) = adapter_parameters pm"
      unfolding wm by (rule peft_model_trainable_filter[OF g inf])
    show "\<exists>pm. wm = Peft pm \<and>
            map param_name (parameters (base_model pm)) = map param_name (parameters m) \<and>
            (\<forall>p \<in> set (parameters (base_model pm)). \<not> requires_grad p) \<and>
            adapter_parameters pm = concat (map (lora_adapters peft_config) (parameters m)) \<and>
            (\<forall>a \<in> set (adapter_parameters pm). requires_grad a) \<and>
            filter requires_grad (named_parameters wm) = adapter_parameters pm"
      by (rule exI[of _ pm]) (rule conjI[OF wm conjI[OF n conjI[OF fr conjI[OF ad conjI[OF tr fi]]]]])
  qed
next
  assume off: "\<not> use_lora training_args"
  show "apply_lora training_args m tr = (Inr (Base m), tr)" by (rule apply_lora_off[OF off])
  show "named_parameters (Base m) = parameters m" by simp
  assume "\<forall>p \<in> set (parameters m). requires_grad p"
  then show "\<forall>p \<in> set (named_parameters (Base m)). requires_grad p" by simp
qed


theorem apply_lora_trainable_parameters_witness:
  "use_lora sample_training_arguments \<and>
   (\<exists>p \<in> set (parameters sample_model). in_module p = ''W_pack'') \<and>
   (\<exists>pm. fst (apply_lora sample_training_arguments sample_model []) = Inr (Peft pm) \<and>
      (\<forall>p \<in> set (parameters (base_model pm)). \<not> requires_grad p) \<and>
      (\<forall>a \<in> set (adapter_parameters pm). requires_grad a) \<and>
      filter requires_grad (named_parameters (Peft pm)) = adapter_parameters pm) \<and>
   \<not> use_lora (sample_training_arguments\<lparr>use_lora := False\<rparr>) \<and>
   apply_lora (sample_training_arguments\<lparr>use_lora := False\<rparr>) sample_model [] =
     (Inr (Base sample_model), []) \<and>
   list_all requires_grad (parameters sample_model) \<and>
   list_all requires_grad (named_parameters (Base sample_model))"
proof -
  have on: "use_lora sample_training_arguments" by (simp add: sample_training_arguments_def)
  have tg: "\<exists>p \<in> set (parameters sample_model). in_module p = ''W_pack''"
    by (simp add: sample_model_def)
  have off: "\<not> use_lora (sample_training_arguments\<lparr>use_lora := False\<rparr>)" by simp
  have al: "\<forall>p \<in> set (parameters sample_model). requires_grad p" by (simp add: sample_model_def)
  note t1 = apply_lora_trainable_parameters[where training_args = sample_training_arguments
      and m = sample_model and tr = "[]", THEN conjunct1, rule_format, OF on]
  from t1[THEN conjunct1, rule_format, OF tg] obtain pm where
    f: "fst (apply_lora sample_training_arguments sample_model []) = Inr (Peft pm)"
    by blast
  from t1[THEN conjunct2, rule_format, OF f] obtain pm' where
    e: "Peft pm = Peft pm'"
    and fr: "\<forall>p \<in> set (parameters (base_model pm')). \<not> requires_grad p"
    and tr: "\<forall>a \<in> set (adapter_parameters pm'). requires_grad a"
    and fi: "filter requires_grad (named_parameters (Peft pm)) = adapter_parameters pm'"
    by blast
  from e have pm: "pm' = pm" by simp
  have ex: "\<exists>pm. fst (apply_lora sample_training_arguments sample_model []) = Inr (Peft pm) \<and>
      (\<forall>p \<in> set (parameters (base_model pm)). \<not> requires_grad p) \<and>
      (\<forall>a \<in> set (adapter_parameters pm). requires_grad a) \<and>
      filter requires_grad (named_parameters (Peft pm)) = adapter_parameters pm"
    by (rule exI[of _ pm]) (use f fr tr fi in \<open>simp only: pm simp_thms\<close>)
  note t2 = apply_lora_trainable_parameters[where
      training_args = "sample_training_arguments\<lparr>use_lora := False\<rparr>"
      and m = sample_model and tr = "[]", THEN conjunct2, THEN mp, OF off]
  have b: "apply_lora (sample_training_arguments\<lparr>use_lora := False\<rparr>) sample_model [] =
     (Inr (Base sample_model), [])"
    by (rule t2[THEN conjunct1])
  have st: "\<forall>p \<in> set (named_parameters (Base sample_model)). requires_grad p"
    by (rule mp[OF t2[THEN conjunct2, THEN conjunct2] al])
  show ?thesis
    by (rule conjI[OF on conjI[OF tg conjI[OF ex conjI[OF off conjI[OF b
          conjI[OF al[folded list_all_iff] st[folded list_all_iff]]]]]]])
qed

lemma mset_insert_shuffle: "mset (insert_shuffle draw xs) = mset xs"
proof (induction xs)
  case Nil
  show ?case by simp
next
  case (Cons x xs)
  define ys where "ys = insert_shuffle draw xs"
  define k where "k = draw (length xs) mod Suc (length xs)"
  have s: "insert_shuffle draw (x # xs) = take k ys @ x # drop k ys"
    by (simp add: Let_def ys_def k_def)
  have "mset (take k ys @ x # drop k ys) = add_mset x (mset (take k ys) + mset (drop k ys))"
    by simp
  also have "\<dots> = add_mset x (mset (take k ys @ drop k ys))"
    by (simp only: mset_append)
  also have "\<dots> = add_mset x (mset ys)" unfolding append_take_drop_id by (rule refl)
  also have "\<dots> = mset (x # xs)" by (simp add: ys_def Cons.IH)
  finally show ?case by (simp only: s)
qed

lemma mset_generator_permutation:
  "mset (generator_permutation draw n) = mset [0..<n]"
  unfolding generator_permutation_def by (rule mset_insert_shuffle)

lemma permutation_facts:
  assumes "mset p = mset [0..<n]"
  shows "length p = n" and "distinct p" and "set p = {..<n}" and "list_all (\<lambda>i. i < n) p"
proof -
  from mset_eq_length[OF assms] show "length p = n" by (simp only: length_upt diff_zero)
  from mset_eq_imp_distinct_iff[OF assms] show "distinct p" by (simp only: distinct_upt)
  from mset_eq_setD[OF assms] show s: "set p = {..<n}"
    by (simp only: set_upt atLeast0LessThan)
  show "list_all (\<lambda>i. i < n) p" unfolding list_all_iff s by (rule ballI) (simp only: lessThan_iff)
qed

lemma select_all_rows:
  assumes "mset p = mset [0..<length xs]"
  shows "mset (map (\<lambda>i. xs ! i) p) = mset xs"
proof -
  have "image_mset (\<lambda>i. xs ! i) (mset p) = image_mset (\<lambda>i. xs ! i) (mset [0..<length xs])"
    by (simp only: assms)
  then have "mset (map (\<lambda>i. xs ! i) p) = mset (map (\<lambda>i. xs ! i) [0..<length xs])"
    by (simp only: mset_map)
  then show ?thesis by (simp only: map_nth)
qed

lemma split_indices:
  assumes "length p = n" and "k \<le> n"
  shows "train_indices p k (n - k) = drop k p" and "test_indices p k = take k p"
proof -
  have "length (drop k p) = n - k" using assms(1) by simp
  then show "train_indices p k (n - k) = drop k p" unfolding train_indices_def by simp
  show "test_indices p k = take k p" by (simp only: test_indices_def)
qed

lemma rows_select_rows: "rows (select_rows ds idx) = map (\<lambda>i. rows ds ! i) idx"
  by (simp add: select_rows_def)

lemma format_transform_select_rows:
  "format_transform (select_rows ds idx) = format_transform ds"
  by (simp add: select_rows_def)

lemma drop_take_permutation:
  assumes "mset p = mset [0..<n]"
  shows "mset (drop k p @ take k p) = mset [0..<n]"
proof -
  have "mset (drop k p @ take k p) = mset (take k p @ drop k p)"
    by (simp only: mset_append add.commute)
  also have "\<dots> = mset p" by (simp only: append_take_drop_id)
  finally show ?thesis by (simp only: assms)
qed

lemma train_test_split_empty:
  assumes "rows ds = []"
  shows "train_test_split rng a ds test_size seed = Inr [(''train'', ds), (''test'', ds)]"
  using assms by (simp add: train_test_split_def)

lemma train_test_split_too_small:
  assumes "rows ds \<noteq> []" and "int (length (rows ds)) \<le> test_size"
  shows "train_test_split rng a ds test_size seed = Inl (ValueError ''test_size'')"
  using assms by (simp add: train_test_split_def)

lemma train_test_split_Inr:
  assumes "0 < test_size" and "test_size < int (length (rows ds))"
  shows "train_test_split rng a ds test_size (Some seed) =
     Inr [(''train'', select_rows ds
             (drop (nat test_size) (generator_permutation (rng seed) (length (rows ds))))),
          (''test'', select_rows ds
             (take (nat test_size) (generator_permutation (rng seed) (length (rows ds)))))]"
proof -
  let ?n = "length (rows ds)" and ?p = "generator_permutation (rng seed) (length (rows ds))"
  have z: "?n \<noteq> 0" using assms by auto
  have c: "\<not> (test_size \<le> 0 \<or> int ?n \<le> test_size)" using assms by simp
  have k: "nat test_size \<le> ?n" using assms by simp
  have lp: "length ?p = ?n" by (rule permutation_facts(1)[OF mset_generator_permutation])
  have tr: "train_indices ?p (nat test_size) (?n - nat test_size) = drop (nat test_size) ?p"
    by (rule split_indices(1)[OF lp k])
  have te: "test_indices ?p (nat test_size) = take (nat test_size) ?p"
    by (simp only: test_indices_def)
  show ?thesis
    unfolding train_test_split_def Let_def option.case
    by (simp only: z c tr te if_False)
qed

lemma train_test_split_seeded:
  "train_test_split rng a1 ds test_size (Some seed) = train_test_split rng a2 ds test_size (Some seed)"
  unfolding train_test_split_def option.case by (rule refl)

lemma train_test_split_unseeded:
  "train_test_split rng a ds test_size None = train_test_split rng a' ds test_size (Some a)"
  unfolding train_test_split_def option.case by (rule refl)

text \<open>
  Lines 102-112 in closed form: on a single dataset the trainer that is built, or the
  error, is given by the partition that the records and the draws of the generator made
  from 42 determine.
\<close>

lemma build_trainer_dataset:
  "build_trainer env (training_args, wm, tk, Dataset ds) tr =
     (case seeded_partition (default_rng env 42) (rows ds) of
        Inl e \<Rightarrow> (Inl e, tr @ [EvTrainTestSplit 1000 42])
      | Inr (train_rows, test_rows) \<Rightarrow>
          (Inr \<lparr>trainer_model = wm, trainer_args = training_args,
                train_dataset = \<lparr>rows = train_rows, format_transform = Some tk\<rparr>,
                eval_dataset = \<lparr>rows = test_rows, format_transform = Some tk\<rparr>,
                trainer_tokenizer = tk, data_collator = tk\<rparr>,
           tr @ [EvTrainTestSplit 1000 42]))"
proof -
  let ?ds = "ds\<lparr>format_transform := Some tk\<rparr>"
  let ?split = "train_test_split (default_rng env) (ambient_random_state env) ?ds 1000 (Some 42)"
  have b: "build_trainer env (training_args, wm, tk, Dataset ds) tr =
     (case ?split of
        Inl e \<Rightarrow> (Inl e, tr @ [EvTrainTestSplit 1000 42])
      | Inr splits \<Rightarrow>
          and_then (step (getitem splits ''train''))
            (\<lambda>train_split. and_then (step (getitem splits ''test''))
               (\<lambda>test_split.
                  step (Inr \<lparr>trainer_model = wm, trainer_args = training_args,
                              train_dataset = train_split, eval_dataset = test_split,
                              trainer_tokenizer = tk, data_collator = tk\<rparr>)))
            (tr @ [EvTrainTestSplit 1000 42]))"
    by (cases ?split)
       (simp_all add: build_trainer_def loaded_train_test_split_def set_transform_def
          and_then_def call_def)
  consider (empty) "rows ds = []" | (small) "rows ds \<noteq> []" "length (rows ds) \<le> 1000"
    | (large) "1000 < length (rows ds)"
    by linarith
  then show ?thesis
  proof cases
    case empty
    then have r: "rows ?ds = []" by simp
    have e: "?ds = \<lparr>rows = [], format_transform = Some tk\<rparr>" using empty by simp
    show ?thesis
      unfolding b train_test_split_empty[OF r]
      by (simp add: seeded_partition_def empty and_then_def step_def getitem_def e)
  next
    case small
    have r: "rows ?ds \<noteq> []" using small(1) by simp
    have s: "int (length (rows ?ds)) \<le> 1000" using small(2) by simp
    show ?thesis
      unfolding b train_test_split_too_small[OF r s]
      by (simp add: seeded_partition_def small)
  next
    case large
    have p: "(0::int) < 1000" by simp
    have s: "1000 < int (length (rows ?ds))" using large by simp
    have ne: "rows ds \<noteq> []" using large by auto
    have nl: "\<not> length (rows ds) \<le> 1000" using large by simp
    show ?thesis
      unfolding b train_test_split_Inr[OF p s]
      by (simp add: seeded_partition_def ne nl and_then_def step_def getitem_def
            select_rows_def)
  qed
qed

lemma build_trainer_dict:
  "build_trainer env (training_args, wm, tk, DatasetDict splits) tr =
     (Inl (AttributeError ''train_test_split''), tr @ [EvTrainTestSplit 1000 42])"
  by (simp add: build_trainer_def loaded_train_test_split_def set_transform_def
        and_then_def call_def)


lemma emits_only_call: "P ev \<Longrightarrow> emits_only P (call ev r)"
  by (simp add: emits_only_def call_def)

lemma emits_only_step: "emits_only P (step r)"
  by (simp add: emits_only_def step_def)

lemma emits_only_and_then:
  assumes "emits_only P m" and "\<And>x. emits_only P (f x)"
  shows "emits_only P (and_then m f)"
  unfolding emits_only_def
proof
  fix tr
  from assms(1) obtain new where m: "snd (m tr) = tr @ new" and n: "list_all P new"
    unfolding emits_only_def by blast
  show "\<exists>new. snd (and_then m f tr) = tr @ new \<and> list_all P new"
  proof (cases "fst (m tr)")
    case (Inl e)
    then have "m tr = (Inl e, tr @ new)" using m by (simp add: prod_eq_iff)
    then have "snd (and_then m f tr) = tr @ new" by (simp add: and_then_def)
    with n show ?thesis by blast
  next
    case (Inr x)
    then have mt: "m tr = (Inr x, tr @ new)" using m by (simp add: prod_eq_iff)
    from assms(2)[of x] obtain new' where f: "snd (f x (tr @ new)) = (tr @ new) @ new'"
      and n': "list_all P new'"
      unfolding emits_only_def by blast
    from mt f have "snd (and_then m f tr) = tr @ (new @ new')" by (simp add: and_then_def)
    moreover from n n' have "list_all P (new @ new')" by simp
    ultimately show ?thesis by blast
  qed
qed

lemma emits_only_try_except:
  assumes "emits_only P m" and "emits_only P h"
  shows "emits_only P (try_except m h)"
  unfolding emits_only_def
proof
  fix tr
  from assms(1) obtain new where m: "snd (m tr) = tr @ new" and n: "list_all P new"
    unfolding emits_only_def by blast
  show "\<exists>new. snd (try_except m h tr) = tr @ new \<and> list_all P new"
  proof (cases "fst (m tr)")
    case (Inr x)
    then have "m tr = (Inr x, tr @ new)" using m by (simp add: prod_eq_iff)
    then have "snd (try_except m h tr) = tr @ new" by (simp add: try_except_def)
    with n show ?thesis by blast
  next
    case (Inl e)
    then have mt: "m tr = (Inl e, tr @ new)" using m by (simp add: prod_eq_iff)
    from assms(2) obtain new' where f: "snd (h (tr @ new)) = (tr @ new) @ new'"
      and n': "list_all P new'"
      unfolding emits_only_def by blast
    from mt f have "snd (try_except m h tr) = tr @ (new @ new')" by (simp add: try_except_def)
    moreover from n n' have "list_all P (new @ new')" by simp
    ultimately show ?thesis by blast
  qed
qed

lemma apply_lora_no_training:
  "emits_only (\<lambda>ev. ev \<noteq> EvTrainerTrain) (apply_lora training_args m)"
  unfolding apply_lora_def
  by (auto intro!: emits_only_and_then emits_only_call emits_only_step)

lemma load_data_no_training:
  "emits_only (\<lambda>ev. ev \<noteq> EvTrainerTrain) (load_data env da)"
  unfolding load_data_def
  by (intro emits_only_try_except emits_only_and_then emits_only_call emits_only_step) simp_all

lemma train_until_loaded_no_training:
  "emits_only (\<lambda>ev. ev \<noteq> EvTrainerTrain) (train_until_loaded env)"
  unfolding train_until_loaded_def Let_def
  by (intro emits_only_and_then emits_only_call emits_only_step
        apply_lora_no_training load_data_no_training)
     (simp_all add: split_beta emits_only_and_then emits_only_call emits_only_step
        apply_lora_no_training load_data_no_training)

lemma and_then_Inr:
  assumes "fst (and_then m f tr) = Inr y"
  obtains x tr' where "m tr = (Inr x, tr')" and "fst (f x tr') = Inr y"
proof (cases "m tr")
  case (Pair r tr')
  show ?thesis
  proof (cases r)
    case (Inl e)
    with Pair assms show ?thesis by (simp add: and_then_def)
  next
    case (Inr x)
    with Pair assms have "fst (f x tr') = Inr y" by (simp add: and_then_def)
    with Pair Inr that show ?thesis by blast
  qed
qed

lemma and_then_eq:
  assumes "m tr = (Inr x, tr')"
  shows "and_then m f tr = f x tr'"
  using assms by (simp add: and_then_def)

lemma call_Inr:
  assumes "call ev r tr = (Inr x, tr')"
  shows "r = Inr x" and "tr' = tr @ [ev]"
  using assms by (simp_all add: call_def)

lemma step_Inr:
  assumes "fst (step r tr) = Inr x"
  shows "r = Inr x"
  using assms by (simp add: step_def)

lemma train_until_loaded_tokenizer:
  assumes "fst (train_until_loaded env tr) = Inr (training_args, wm, tk, d)"
  shows "\<exists>model_args data_args tk0.
     parse_args_into_dataclasses env = Inr (model_args, data_args, training_args) \<and>
     tokenizer_from_pretrained env (model_name_or_path model_args)
       (model_max_length training_args) (cache_dir training_args) = Inr tk0 \<and>
     tk = tk0\<lparr>pad_token_id := eos_token_id tk0\<rparr>"
proof -
  from assms obtain a tr1 where
    c1: "call EvParseArgs (parse_args_into_dataclasses env) tr = (Inr a, tr1)" and
    r1: "fst ((case a of (model_args, data_args, training_args) \<Rightarrow>
       and_then (call EvModelFromPretrained
                 (model_from_pretrained env (model_name_or_path model_args) (cache_dir training_args)))
       (\<lambda>m.
     and_then (call EvTokenizerFromPretrained
                 (tokenizer_from_pretrained env (model_name_or_path model_args)
                    (model_max_length training_args) (cache_dir training_args)))
       (\<lambda>tokenizer0.
     let tokenizer = tokenizer0\<lparr>pad_token_id := eos_token_id tokenizer0\<rparr> in
     and_then (apply_lora training_args m)
       (\<lambda>wm.
     and_then (load_data env data_args)
       (\<lambda>dataset. step (Inr (training_args, wm, tokenizer, dataset))))))) tr1)
      = Inr (training_args, wm, tk, d)"
    unfolding train_until_loaded_def by (rule and_then_Inr)
  obtain model_args data_args targs where a: "a = (model_args, data_args, targs)"
    by (cases a)
  from r1[unfolded a prod.case] obtain m tr2 where
    r2: "fst (and_then (call EvTokenizerFromPretrained
                 (tokenizer_from_pretrained env (model_name_or_path model_args)
                    (model_max_length targs) (cache_dir targs)))
       (\<lambda>tokenizer0.
     let tokenizer = tokenizer0\<lparr>pad_token_id := eos_token_id tokenizer0\<rparr> in
     and_then (apply_lora targs m)
       (\<lambda>wm.
     and_then (load_data env data_args)
       (\<lambda>dataset. step (Inr (targs, wm, tokenizer, dataset))))) tr2)
      = Inr (training_args, wm, tk, d)"
    by (rule and_then_Inr)
  from r2 obtain tk0 tr3 where
    c3: "call EvTokenizerFromPretrained
                 (tokenizer_from_pretrained env (model_name_or_path model_args)
                    (model_max_length targs) (cache_dir targs)) tr2 = (Inr tk0, tr3)" and
    r3: "fst ((let tokenizer = tk0\<lparr>pad_token_id := eos_token_id tk0\<rparr> in
     and_then (apply_lora targs m)
       (\<lambda>wm.
     and_then (load_data env data_args)
       (\<lambda>dataset. step (Inr (targs, wm, tokenizer, dataset))))) tr3)
      = Inr (training_args, wm, tk, d)"
    by (rule and_then_Inr)
  from r3[unfolded Let_def] obtain wm' tr4 where
    r4: "fst (and_then (load_data env data_args)
       (\<lambda>dataset. step (Inr (targs, wm', tk0\<lparr>pad_token_id := eos_token_id tk0\<rparr>, dataset))) tr4)
      = Inr (training_args, wm, tk, d)"
    by (rule and_then_Inr)
  from r4 obtain d' tr5 where
    r5: "fst (step (Inr (targs, wm', tk0\<lparr>pad_token_id := eos_token_id tk0\<rparr>, d')) tr5)
      = Inr (training_args, wm, tk, d)"
    by (rule and_then_Inr)
  from step_Inr[OF r5] have e: "targs = training_args" "tk = tk0\<lparr>pad_token_id := eos_token_id tk0\<rparr>"
    by simp_all
  have p: "parse_args_into_dataclasses env = Inr (model_args, data_args, training_args)"
    using call_Inr(1)[OF c1] a e(1) by simp
  have t: "tokenizer_from_pretrained env (model_name_or_path model_args)
       (model_max_length training_args) (cache_dir training_args) = Inr tk0"
    using call_Inr(1)[OF c3] e(1) by simp
  from p t e(2) show ?thesis by blast
qed

lemma train_until_trainer_Inr:
  assumes "fst (train_until_trainer env tr) = Inr T"
  obtains training_args wm tk d tr' where
    "train_until_loaded env tr = (Inr (training_args, wm, tk, d), tr')"
    and "fst (build_trainer env (training_args, wm, tk, d) tr') = Inr T"
proof -
  from assms obtain x tr' where l: "train_until_loaded env tr = (Inr x, tr')"
    and b: "fst (build_trainer env x tr') = Inr T"
    unfolding train_until_trainer_def by (rule and_then_Inr)
  obtain training_args wm tk d where x: "x = (training_args, wm, tk, d)" by (cases x)
  from l b that show ?thesis unfolding x by blast
qed

lemma train_until_trainer_loaded:
  assumes "train_until_loaded env tr = (Inr (training_args, wm, tk, d), tr')"
  shows "train_until_trainer env tr = build_trainer env (training_args, wm, tk, d) tr'"
  unfolding train_until_trainer_def
  by (rule and_then_eq[of "train_until_loaded env" tr "(training_args, wm, tk, d)" tr', OF assms])

lemma build_trainer_empty:
  assumes "rows ds = []"
  shows "build_trainer env (training_args, wm, tk, Dataset ds) tr =
     (Inr \<lparr>trainer_model = wm, trainer_args = training_args,
           train_dataset = \<lparr>rows = [], format_transform = Some tk\<rparr>,
           eval_dataset = \<lparr>rows = [], format_transform = Some tk\<rparr>,
           trainer_tokenizer = tk, data_collator = tk\<rparr>,
      tr @ [EvTrainTestSplit 1000 42])"
  unfolding build_trainer_dataset by (simp add: seeded_partition_def assms)

lemma build_trainer_small:
  assumes "rows ds \<noteq> []" and "length (rows ds) \<le> 1000"
  shows "build_trainer env (training_args, wm, tk, Dataset ds) tr =
     (Inl (ValueError ''test_size''), tr @ [EvTrainTestSplit 1000 42])"
  unfolding build_trainer_dataset by (simp add: seeded_partition_def assms)

lemma build_trainer_large:
  assumes "1000 < length (rows ds)"
  shows "build_trainer env (training_args, wm, tk, Dataset ds) tr =
     (Inr \<lparr>trainer_model = wm, trainer_args = training_args,
           train_dataset =
             \<lparr>rows = map (\<lambda>i. rows ds ! i)
                      (drop 1000 (generator_permutation (default_rng env 42) (length (rows ds)))),
              format_transform = Some tk\<rparr>,
           eval_dataset =
             \<lparr>rows = map (\<lambda>i. rows ds ! i)
                      (take 1000 (generator_permutation (default_rng env 42) (length (rows ds)))),
              format_transform = Some tk\<rparr>,
           trainer_tokenizer = tk, data_collator = tk\<rparr>,
      tr @ [EvTrainTestSplit 1000 42])"
proof -
  have ne: "rows ds \<noteq> []" using assms by auto
  have nl: "\<not> length (rows ds) \<le> 1000" using assms by simp
  show ?thesis unfolding build_trainer_dataset by (simp add: seeded_partition_def ne nl)
qed

lemma build_trainer_Inr:
  assumes "fst (build_trainer env (training_args, wm, tk, d) tr) = Inr T"
  shows "trainer_tokenizer T = tk" and "data_collator T = tk"
    and "format_transform (train_dataset T) = Some tk"
    and "format_transform (eval_dataset T) = Some tk"
    and "trainer_model T = wm" and "trainer_args T = training_args"
proof -
  have "trainer_tokenizer T = tk \<and> data_collator T = tk \<and>
     format_transform (train_dataset T) = Some tk \<and>
     format_transform (eval_dataset T) = Some tk \<and>
     trainer_model T = wm \<and> trainer_args T = training_args"
  proof (cases d)
    case (DatasetDict splits)
    with assms show ?thesis by (simp add: build_trainer_dict)
  next
    case (Dataset ds)
    show ?thesis
    proof (cases "seeded_partition (default_rng env 42) (rows ds)")
      case (Inl e)
      with assms Dataset show ?thesis by (simp add: build_trainer_dataset)
    next
      case (Inr ab)
      obtain a b where ab: "ab = (a, b)" by (cases ab)
      from assms Dataset Inr ab have "T =
         \<lparr>trainer_model = wm, trainer_args = training_args,
          train_dataset = \<lparr>rows = a, format_transform = Some tk\<rparr>,
          eval_dataset = \<lparr>rows = b, format_transform = Some tk\<rparr>,
          trainer_tokenizer = tk, data_collator = tk\<rparr>"
        by (simp add: build_trainer_dataset)
      then show ?thesis by simp
    qed
  qed
  then show "trainer_tokenizer T = tk" and "data_collator T = tk"
    and "format_transform (train_dataset T) = Some tk"
    and "format_transform (eval_dataset T) = Some tk"
    and "trainer_model T = wm" and "trainer_args T = training_args"
    by simp_all
qed

lemma padding_carries_pad_token:
  assumes "dataset_transform batch tk = Inr out"
    and "out ''input_ids'' = Some ids" and "out ''attention_mask'' = Some msk"
    and "i < length ids" and "j < length (ids ! i)" and "msk ! i ! j = 0"
  shows "pad_token_id tk = Some (nat (ids ! i ! j)) \<and> 0 \<le> ids ! i ! j"
proof -
  from assms(1) obtain ps p where ps: "batch ''prompt'' = Some ps" and ne: "ps \<noteq> []"
    and p: "pad_token_id tk = Some p"
    by (rule dataset_transform_Inr_cases)
  from dataset_transform_Some[of batch ps tk p, OF ps ne p] assms(1)
  have o: "out = [''input_ids'' \<mapsto> map (padded_ids tk 512 p ps) ps,
          ''attention_mask'' \<mapsto> map (padded_mask tk 512 ps) ps,
          ''labels'' \<mapsto> map (\<lambda>t. ignore_padding (padded_ids tk 512 p ps t) (padded_mask tk 512 ps t)) ps]"
    by simp
  from assms(2) have ids: "ids = map (padded_ids tk 512 p ps) ps" unfolding o by simp
  from assms(3) have msk: "msk = map (padded_mask tk 512 ps) ps" unfolding o by simp
  from assms(4) have i: "i < length ps" by (simp add: ids)
  from assms(5) have j: "j < tokenized_width tk 512 ps"
    unfolding ids by (simp only: transform_row_lengths(1)[OF i])
  from assms(6) have "map (padded_mask tk 512 ps) ps ! i ! j = 0" by (simp only: msk)
  then have "map (padded_ids tk 512 p ps) ps ! i ! j = int p" by (rule transform_cell(3)[OF i j])
  then have "ids ! i ! j = int p" by (simp only: ids)
  with p show ?thesis by simp
qed

lemma generator_permutation_split:
  assumes "1000 < n"
  shows "length (take 1000 (generator_permutation draw n)) = 1000"
    and "length (drop 1000 (generator_permutation draw n)) = n - 1000"
    and "distinct (drop 1000 (generator_permutation draw n) @ take 1000 (generator_permutation draw n))"
    and "set (drop 1000 (generator_permutation draw n)) \<inter>
           set (take 1000 (generator_permutation draw n)) = {}"
    and "set (drop 1000 (generator_permutation draw n)) \<union>
           set (take 1000 (generator_permutation draw n)) = {..<n}"
proof -
  let ?p = "generator_permutation draw n"
  have lp: "length ?p = n" by (rule permutation_facts(1)[OF mset_generator_permutation])
  show "length (take 1000 ?p) = 1000" using lp assms by simp
  show "length (drop 1000 ?p) = n - 1000" using lp by simp
  have pm: "mset (drop 1000 ?p @ take 1000 ?p) = mset [0..<n]"
    by (rule drop_take_permutation[OF mset_generator_permutation])
  show d: "distinct (drop 1000 ?p @ take 1000 ?p)" by (rule permutation_facts(2)[OF pm])
  from d show "set (drop 1000 ?p) \<inter> set (take 1000 ?p) = {}" by (simp only: distinct_append)
  have "set (drop 1000 ?p @ take 1000 ?p) = {..<n}" by (rule permutation_facts(3)[OF pm])
  then show "set (drop 1000 ?p) \<union> set (take 1000 ?p) = {..<n}" by (simp only: set_append)
qed

lemma generator_permutation_covers:
  "mset (map (\<lambda>i. xs ! i) (drop 1000 (generator_permutation draw (length xs)))) +
   mset (map (\<lambda>i. xs ! i) (take 1000 (generator_permutation draw (length xs)))) = mset xs"
proof -
  let ?p = "generator_permutation draw (length xs)"
  have pm: "mset (drop 1000 ?p @ take 1000 ?p) = mset [0..<length xs]"
    by (rule drop_take_permutation[OF mset_generator_permutation])
  have "mset (map (\<lambda>i. xs ! i) (drop 1000 ?p @ take 1000 ?p)) = mset xs"
    by (rule select_all_rows[OF pm])
  then show ?thesis by (simp only: map_append mset_append)
qed

lemma sample_dataset_size: "1000 < length (rows sample_dataset)"
  by (simp add: sample_dataset_def)

lemma run_tokenizer_transform:
  "dataset_transform sample_batch (loaded_tokenizer\<lparr>pad_token_id := eos_token_id loaded_tokenizer\<rparr>) =
     Inr [''input_ids'' \<mapsto> [[97, 98], [99, 2]],
          ''attention_mask'' \<mapsto> [[1, 1], [1, 0]],
          ''labels'' \<mapsto> [[97, 98], [99, - 100]]]"
  by (simp add: dataset_transform_def sample_batch_def loaded_tokenizer_def byte_tokenizer_def
      tokenizer_call_def masked_fill_zero_def longest_def pad_row_def Let_def)

lemma sample_env_loaded:
  "\<exists>wm. train_until_loaded sample_env [] =
     (Inr (sample_training_arguments, wm,
           loaded_tokenizer\<lparr>pad_token_id := eos_token_id loaded_tokenizer\<rparr>,
           Dataset sample_dataset),
      [EvParseArgs, EvModelFromPretrained, EvTokenizerFromPretrained, EvGetPeftModel,
       EvPrintTrainableParameters, EvLoadFromDisk (Some ''data'')])"
  by (simp add: train_until_loaded_def sample_env_def and_then_def call_def step_def
        apply_lora_def load_data_def try_except_def get_peft_model_def lora_adapters_def
        peft_config_def enable_input_require_grads_def sample_model_def
        sample_training_arguments_def sample_data_arguments_def select_train_def
        loaded_tokenizer_def Let_def)

lemma hub_env_loaded:
  "\<exists>wm. train_until_loaded hub_env [] =
     (Inr (sample_training_arguments, wm,
           loaded_tokenizer\<lparr>pad_token_id := eos_token_id loaded_tokenizer\<rparr>,
           Dataset small_dataset),
      [EvParseArgs, EvModelFromPretrained, EvTokenizerFromPretrained, EvGetPeftModel,
       EvPrintTrainableParameters, EvLoadFromDisk (Some ''data''),
       EvLoadDataset (Some ''data'') ''train''])"
  by (simp add: train_until_loaded_def hub_env_def sample_env_def and_then_def call_def step_def
        apply_lora_def load_data_def try_except_def get_peft_model_def lora_adapters_def
        peft_config_def enable_input_require_grads_def sample_model_def
        sample_training_arguments_def sample_data_arguments_def select_train_def
        loaded_tokenizer_def Let_def)


lemma sample_env_trainer: "\<exists>T. fst (train_until_trainer sample_env []) = Inr T"
proof -
  from sample_env_loaded obtain wm where
    l: "train_until_loaded sample_env [] =
     (Inr (sample_training_arguments, wm,
           loaded_tokenizer\<lparr>pad_token_id := eos_token_id loaded_tokenizer\<rparr>,
           Dataset sample_dataset),
      [EvParseArgs, EvModelFromPretrained, EvTokenizerFromPretrained, EvGetPeftModel,
       EvPrintTrainableParameters, EvLoadFromDisk (Some ''data'')])"
    by blast
  show ?thesis
    unfolding train_until_trainer_loaded[OF l] build_trainer_large[OF sample_dataset_size]
    by simp
qed


text \<open>
  C7.  When the run has loaded a dataset of more than 1000 records, lines 103-112 build
  the trainer, the split of line 103 (test size 1000, seed 42) being the last call so far.
  The held-out partition given to the trainer has exactly 1000 records and the train
  partition the remaining ones; each partition is the records at its list of indices, no
  index is in both lists or twice in one, every index of the dataset is in one of them,
  and the records of the two partitions together are the records of the dataset.
\<close>
theorem train_split_sizes_and_partition:
  assumes "train_until_loaded env tr = (Inr (training_args, wm, tk, Dataset ds), tr')"
    and "1000 < length (rows ds)"
  shows "\<exists>T train_idx test_idx.
    train_until_trainer env tr = (Inr T, tr' @ [EvTrainTestSplit 1000 42]) \<and>
    rows (train_dataset T) = map (\<lambda>i. rows ds ! i) train_idx \<and>
    rows (eval_dataset T) = map (\<lambda>i. rows ds ! i) test_idx \<and>
    length (rows (eval_dataset T)) = 1000 \<and>
    length (rows (train_dataset T)) = length (rows ds) - 1000 \<and>
    distinct (train_idx @ test_idx) \<and>
    set train_idx \<inter> set test_idx = {} \<and>
    set train_idx \<union> set test_idx = {..<length (rows ds)} \<and>
    mset (rows (train_dataset T)) + mset (rows (eval_dataset T)) = mset (rows ds)"
proof -
  let ?p = "generator_permutation (default_rng env 42) (length (rows ds))"
  let ?T = "\<lparr>trainer_model = wm, trainer_args = training_args,
           train_dataset = \<lparr>rows = map (\<lambda>i. rows ds ! i) (drop 1000 ?p), format_transform = Some tk\<rparr>,
           eval_dataset = \<lparr>rows = map (\<lambda>i. rows ds ! i) (take 1000 ?p), format_transform = Some tk\<rparr>,
           trainer_tokenizer = tk, data_collator = tk\<rparr>"
  note s = generator_permutation_split[OF assms(2), of "default_rng env 42"]
  have r: "train_until_trainer env tr = (Inr ?T, tr' @ [EvTrainTestSplit 1000 42])"
    unfolding train_until_trainer_loaded[OF assms(1)] by (rule build_trainer_large[OF assms(2)])
  have a: "rows (train_dataset ?T) = map (\<lambda>i. rows ds ! i) (drop 1000 ?p)" by simp
  have b: "rows (eval_dataset ?T) = map (\<lambda>i. rows ds ! i) (take 1000 ?p)" by simp
  have l1: "length (rows (eval_dataset ?T)) = 1000"
    unfolding b length_map by (rule s(1))
  have l2: "length (rows (train_dataset ?T)) = length (rows ds) - 1000"
    unfolding a length_map by (rule s(2))
  have m: "mset (rows (train_dataset ?T)) + mset (rows (eval_dataset ?T)) = mset (rows ds)"
    unfolding a b by (rule generator_permutation_covers)
  show ?thesis
    by (rule exI[of _ ?T], rule exI[of _ "drop 1000 ?p"], rule exI[of _ "take 1000 ?p"])
       (rule conjI[OF r conjI[OF a conjI[OF b conjI[OF l1 conjI[OF l2
          conjI[OF s(3) conjI[OF s(4) conjI[OF s(5) m]]]]]]]])
qed

text \<open>
  C9.  Whenever the run gets as far as building the trainer, the tokenizer it hands to the
  dataset transform, to the trainer and to the collator is the loaded tokenizer with its
  pad token id overwritten by its end-of-sequence token id (line 78, before any of these
  uses); so the two ids are equal there, and in what \<^verbatim>\<open>dataset_transform\<close> returns with
  that tokenizer every position with attention mask 0 holds the end-of-sequence token id.
\<close>
theorem train_pad_token_is_eos_token:
  assumes "fst (train_until_trainer env tr) = Inr T"
  shows "(\<exists>model_args data_args training_args tk0.
       parse_args_into_dataclasses env = Inr (model_args, data_args, training_args) \<and>
       tokenizer_from_pretrained env (model_name_or_path model_args)
         (model_max_length training_args) (cache_dir training_args) = Inr tk0 \<and>
       trainer_tokenizer T = tk0\<lparr>pad_token_id := eos_token_id tk0\<rparr>) \<and>
     pad_token_id (trainer_tokenizer T) = eos_token_id (trainer_tokenizer T) \<and>
     data_collator T = trainer_tokenizer T \<and>
     format_transform (train_dataset T) = Some (trainer_tokenizer T) \<and>
     format_transform (eval_dataset T) = Some (trainer_tokenizer T) \<and>
     (\<forall>batch out ids msk i j.
        dataset_transform batch (trainer_tokenizer T) = Inr out \<longrightarrow>
        out ''input_ids'' = Some ids \<longrightarrow> out ''attention_mask'' = Some msk \<longrightarrow>
        i < length ids \<longrightarrow> j < length (ids ! i) \<longrightarrow> msk ! i ! j = 0 \<longrightarrow>
        eos_token_id (trainer_tokenizer T) = Some (nat (ids ! i ! j)) \<and> 0 \<le> ids ! i ! j)"
proof -
  from assms obtain training_args wm tk d tr' where
    l: "train_until_loaded env tr = (Inr (training_args, wm, tk, d), tr')"
    and b: "fst (build_trainer env (training_args, wm, tk, d) tr') = Inr T"
    by (rule train_until_trainer_Inr)
  from l have "fst (train_until_loaded env tr) = Inr (training_args, wm, tk, d)" by simp
  from train_until_loaded_tokenizer[OF this] obtain model_args data_args tk0 where
    pa: "parse_args_into_dataclasses env = Inr (model_args, data_args, training_args)" and
    tf: "tokenizer_from_pretrained env (model_name_or_path model_args)
         (model_max_length training_args) (cache_dir training_args) = Inr tk0" and
    tk: "tk = tk0\<lparr>pad_token_id := eos_token_id tk0\<rparr>"
    by blast
  note bt = build_trainer_Inr[OF b]
  have c1: "\<exists>model_args data_args training_args tk0.
       parse_args_into_dataclasses env = Inr (model_args, data_args, training_args) \<and>
       tokenizer_from_pretrained env (model_name_or_path model_args)
         (model_max_length training_args) (cache_dir training_args) = Inr tk0 \<and>
       trainer_tokenizer T = tk0\<lparr>pad_token_id := eos_token_id tk0\<rparr>"
    using pa tf tk bt(1) by blast
  have c2: "pad_token_id (trainer_tokenizer T) = eos_token_id (trainer_tokenizer T)"
    unfolding bt(1) tk by simp
  have c3: "data_collator T = trainer_tokenizer T" by (simp only: bt(1,2))
  have c4: "format_transform (train_dataset T) = Some (trainer_tokenizer T)" by (simp only: bt(1,3))
  have c5: "format_transform (eval_dataset T) = Some (trainer_tokenizer T)" by (simp only: bt(1,4))
  have c6: "\<forall>batch out ids msk i j.
        dataset_transform batch (trainer_tokenizer T) = Inr out \<longrightarrow>
        out ''input_ids'' = Some ids \<longrightarrow> out ''attention_mask'' = Some msk \<longrightarrow>
        i < length ids \<longrightarrow> j < length (ids ! i) \<longrightarrow> msk ! i ! j = 0 \<longrightarrow>
        eos_token_id (trainer_tokenizer T) = Some (nat (ids ! i ! j)) \<and> 0 \<le> ids ! i ! j"
  proof (intro allI impI)
    fix batch out ids msk i j
    assume "dataset_transform batch (trainer_tokenizer T) = Inr out"
      "out ''input_ids'' = Some ids" "out ''attention_mask'' = Some msk"
      "i < length ids" "j < length (ids ! i)" "msk ! i ! j = 0"
    then have "pad_token_id (trainer_tokenizer T) = Some (nat (ids ! i ! j)) \<and> 0 \<le> ids ! i ! j"
      by (rule padding_carries_pad_token)
    then show "eos_token_id (trainer_tokenizer T) = Some (nat (ids ! i ! j)) \<and> 0 \<le> ids ! i ! j"
      by (simp only: c2)
  qed
  show ?thesis by (rule conjI[OF c1 conjI[OF c2 conjI[OF c3 conjI[OF c4 conjI[OF c5 c6]]]]])
qed

text \<open>
  C10, for a dataset that has records.  When the run has loaded a dataset of at least one
  and at most 1000 records, the split of line 103 raises a \<^verbatim>\<open>ValueError\<close>; nothing
  catches it, so it is the result of \<^verbatim>\<open>train()\<close>, and the run ends with the split as its
  last call, the trainer never having been started.
\<close>
theorem train_small_dataset_split_error:
  assumes "train_until_loaded env tr = (Inr (training_args, wm, tk, Dataset ds), tr')"
    and "rows ds \<noteq> []" and "length (rows ds) \<le> 1000"
  shows "train env tr = (Inl (ValueError ''test_size''), tr' @ [EvTrainTestSplit 1000 42]) \<and>
     (\<exists>new. snd (train env tr) = tr @ new \<and> EvTrainerTrain \<notin> set new)"
proof -
  have u: "train_until_trainer env tr =
      (Inl (ValueError ''test_size''), tr' @ [EvTrainTestSplit 1000 42])"
    unfolding train_until_trainer_loaded[OF assms(1)]
    by (rule build_trainer_small[OF assms(2,3)])
  have t: "train env tr = (Inl (ValueError ''test_size''), tr' @ [EvTrainTestSplit 1000 42])"
    unfolding train_def by (simp add: and_then_def u)
  from train_until_loaded_no_training[of env] obtain new where
    n: "snd (train_until_loaded env tr) = tr @ new" and l: "list_all (\<lambda>ev. ev \<noteq> EvTrainerTrain) new"
    unfolding emits_only_def by blast
  from n assms(1) have tr': "tr' = tr @ new" by simp
  from l have "EvTrainerTrain \<notin> set (new @ [EvTrainTestSplit 1000 42])"
    by (auto simp: list_all_iff)
  moreover have "snd (train env tr) = tr @ (new @ [EvTrainTestSplit 1000 42])"
    by (simp add: t tr')
  ultimately have "\<exists>new. snd (train env tr) = tr @ new \<and> EvTrainerTrain \<notin> set new" by blast
  with t show ?thesis by blast
qed

text \<open>
  Counterexample to C10 as the spec has it, for every dataset of at most 1000 records:
  the dataset without records.  \<^verbatim>\<open>train_test_split\<close> returns it as both partitions and
  raises nothing, so the run that fetched it from the hub builds the trainer, starts the
  training and saves.
\<close>
theorem train_empty_dataset_reaches_training:
  "length (rows empty_dataset) \<le> 1000 \<and>
   load_dataset empty_env (data_path sample_data_arguments) ''train'' = Inr empty_dataset \<and>
   partition_of (fst (train_until_trainer empty_env [])) = Inr ([], []) \<and>
   train empty_env [] =
     (Inr (),
      [EvParseArgs, EvModelFromPretrained, EvTokenizerFromPretrained, EvGetPeftModel,
       EvPrintTrainableParameters, EvLoadFromDisk (Some ''data''),
       EvLoadDataset (Some ''data'') ''train'', EvTrainTestSplit 1000 42,
       EvTrainerTrain, EvSaveState, EvSaveModel ''out''])"
proof -
  have l: "\<exists>wm. train_until_loaded empty_env [] =
     (Inr (sample_training_arguments, wm,
           loaded_tokenizer\<lparr>pad_token_id := eos_token_id loaded_tokenizer\<rparr>,
           Dataset empty_dataset),
      [EvParseArgs, EvModelFromPretrained, EvTokenizerFromPretrained, EvGetPeftModel,
       EvPrintTrainableParameters, EvLoadFromDisk (Some ''data''),
       EvLoadDataset (Some ''data'') ''train''])"
    by (simp add: train_until_loaded_def empty_env_def hub_env_def sample_env_def and_then_def
        call_def step_def
        apply_lora_def load_data_def try_except_def get_peft_model_def lora_adapters_def
        peft_config_def enable_input_require_grads_def sample_model_def
        sample_training_arguments_def sample_data_arguments_def select_train_def
        loaded_tokenizer_def Let_def)
  then obtain wm where
    w: "train_until_loaded empty_env [] =
     (Inr (sample_training_arguments, wm,
           loaded_tokenizer\<lparr>pad_token_id := eos_token_id loaded_tokenizer\<rparr>,
           Dataset empty_dataset),
      [EvParseArgs, EvModelFromPretrained, EvTokenizerFromPretrained, EvGetPeftModel,
       EvPrintTrainableParameters, EvLoadFromDisk (Some ''data''),
       EvLoadDataset (Some ''data'') ''train''])"
    by blast
  have e: "rows empty_dataset = []" by (simp add: empty_dataset_def)
  note u = train_until_trainer_loaded[OF w, unfolded build_trainer_empty[OF e]]
  have c1: "length (rows empty_dataset) \<le> 1000" by (simp add: e)
  have c2: "load_dataset empty_env (data_path sample_data_arguments) ''train'' = Inr empty_dataset"
    by (simp add: empty_env_def hub_env_def sample_env_def)
  have c3: "partition_of (fst (train_until_trainer empty_env [])) = Inr ([], [])"
    unfolding u by (simp add: partition_of_def)
  have c4: "train empty_env [] =
     (Inr (),
      [EvParseArgs, EvModelFromPretrained, EvTokenizerFromPretrained, EvGetPeftModel,
       EvPrintTrainableParameters, EvLoadFromDisk (Some ''data''),
       EvLoadDataset (Some ''data'') ''train'', EvTrainTestSplit 1000 42,
       EvTrainerTrain, EvSaveState, EvSaveModel ''out''])"
    unfolding train_def and_then_eq[of "train_until_trainer empty_env", OF u]
    by (simp add: and_then_def run_trainer_def call_def empty_env_def hub_env_def
          sample_env_def sample_training_arguments_def)
  show ?thesis by (rule conjI[OF c1 conjI[OF c2 conjI[OF c3 c4]]])
qed


theorem train_split_sizes_and_partition_witness:
  "(\<exists>wm. train_until_loaded sample_env [] =
     (Inr (sample_training_arguments, wm, loaded_tokenizer\<lparr>pad_token_id := eos_token_id loaded_tokenizer\<rparr>,
           Dataset sample_dataset),
      [EvParseArgs, EvModelFromPretrained, EvTokenizerFromPretrained, EvGetPeftModel,
       EvPrintTrainableParameters, EvLoadFromDisk (Some ''data'')])) \<and>
   length (rows sample_dataset) = 1001 \<and>
   (\<exists>T train_idx test_idx.
      train_until_trainer sample_env [] =
        (Inr T, [EvParseArgs, EvModelFromPretrained, EvTokenizerFromPretrained, EvGetPeftModel,
                 EvPrintTrainableParameters, EvLoadFromDisk (Some ''data''),
                 EvTrainTestSplit 1000 42]) \<and>
      rows (train_dataset T) = map (\<lambda>i. rows sample_dataset ! i) train_idx \<and>
      rows (eval_dataset T) = map (\<lambda>i. rows sample_dataset ! i) test_idx \<and>
      length (rows (eval_dataset T)) = 1000 \<and>
      length (rows (train_dataset T)) = 1 \<and>
      distinct (train_idx @ test_idx) \<and>
      set train_idx \<inter> set test_idx = {} \<and>
      set train_idx \<union> set test_idx = {..<1001} \<and>
      mset (rows (train_dataset T)) + mset (rows (eval_dataset T)) = mset (rows sample_dataset))"
proof -
  from sample_env_loaded obtain wm where
    l: "train_until_loaded sample_env [] =
     (Inr (sample_training_arguments, wm, loaded_tokenizer\<lparr>pad_token_id := eos_token_id loaded_tokenizer\<rparr>,
           Dataset sample_dataset),
      [EvParseArgs, EvModelFromPretrained, EvTokenizerFromPretrained, EvGetPeftModel,
       EvPrintTrainableParameters, EvLoadFromDisk (Some ''data'')])"
    by blast
  have n: "length (rows sample_dataset) = 1001" by (simp add: sample_dataset_def)
  have t: "\<exists>T train_idx test_idx.
      train_until_trainer sample_env [] =
        (Inr T, [EvParseArgs, EvModelFromPretrained, EvTokenizerFromPretrained, EvGetPeftModel,
                 EvPrintTrainableParameters, EvLoadFromDisk (Some ''data''),
                 EvTrainTestSplit 1000 42]) \<and>
      rows (train_dataset T) = map (\<lambda>i. rows sample_dataset ! i) train_idx \<and>
      rows (eval_dataset T) = map (\<lambda>i. rows sample_dataset ! i) test_idx \<and>
      length (rows (eval_dataset T)) = 1000 \<and>
      length (rows (train_dataset T)) = 1 \<and>
      distinct (train_idx @ test_idx) \<and>
      set train_idx \<inter> set test_idx = {} \<and>
      set train_idx \<union> set test_idx = {..<1001} \<and>
      mset (rows (train_dataset T)) + mset (rows (eval_dataset T)) = mset (rows sample_dataset)"
    using train_split_sizes_and_partition[OF l sample_dataset_size]
    unfolding n by simp
  show ?thesis by (rule conjI[OF sample_env_loaded conjI[OF n t]])
qed

theorem train_small_dataset_split_error_witness:
  "(\<exists>wm. train_until_loaded hub_env [] =
     (Inr (sample_training_arguments, wm, loaded_tokenizer\<lparr>pad_token_id := eos_token_id loaded_tokenizer\<rparr>,
           Dataset small_dataset),
      [EvParseArgs, EvModelFromPretrained, EvTokenizerFromPretrained, EvGetPeftModel,
       EvPrintTrainableParameters, EvLoadFromDisk (Some ''data''),
       EvLoadDataset (Some ''data'') ''train''])) \<and>
   rows small_dataset = [0, 1, 2] \<and>
   train hub_env [] =
     (Inl (ValueError ''test_size''),
      [EvParseArgs, EvModelFromPretrained, EvTokenizerFromPretrained, EvGetPeftModel,
       EvPrintTrainableParameters, EvLoadFromDisk (Some ''data''),
       EvLoadDataset (Some ''data'') ''train'', EvTrainTestSplit 1000 42]) \<and>
   EvTrainerTrain \<notin> set (snd (train hub_env []))"
proof -
  from hub_env_loaded obtain wm where
    l: "train_until_loaded hub_env [] =
     (Inr (sample_training_arguments, wm, loaded_tokenizer\<lparr>pad_token_id := eos_token_id loaded_tokenizer\<rparr>,
           Dataset small_dataset),
      [EvParseArgs, EvModelFromPretrained, EvTokenizerFromPretrained, EvGetPeftModel,
       EvPrintTrainableParameters, EvLoadFromDisk (Some ''data''),
       EvLoadDataset (Some ''data'') ''train''])"
    by blast
  have r: "rows small_dataset = [0, 1, 2]" by (simp add: small_dataset_def upt_rec)
  have ne: "rows small_dataset \<noteq> []" by (simp add: r)
  have s: "length (rows small_dataset) \<le> 1000" by (simp add: r)
  note t = train_small_dataset_split_error[OF l ne s]
  from t[THEN conjunct1] have f: "train hub_env [] =
     (Inl (ValueError ''test_size''),
      [EvParseArgs, EvModelFromPretrained, EvTokenizerFromPretrained, EvGetPeftModel,
       EvPrintTrainableParameters, EvLoadFromDisk (Some ''data''),
       EvLoadDataset (Some ''data'') ''train'', EvTrainTestSplit 1000 42])"
    by simp
  from t[THEN conjunct2] obtain new where
    "snd (train hub_env []) = [] @ new" and "EvTrainerTrain \<notin> set new"
    by blast
  then have n: "EvTrainerTrain \<notin> set (snd (train hub_env []))" by simp
  show ?thesis
    by (rule conjI[OF hub_env_loaded conjI[OF r conjI[OF f n]]])
qed

theorem train_pad_token_is_eos_token_witness:
  "\<exists>T. fst (train_until_trainer sample_env []) = Inr T \<and>
     trainer_tokenizer T = loaded_tokenizer\<lparr>pad_token_id := eos_token_id loaded_tokenizer\<rparr> \<and>
     pad_token_id (trainer_tokenizer T) = eos_token_id (trainer_tokenizer T) \<and>
     data_collator T = trainer_tokenizer T \<and>
     format_transform (train_dataset T) = Some (trainer_tokenizer T) \<and>
     format_transform (eval_dataset T) = Some (trainer_tokenizer T) \<and>
     dataset_transform sample_batch (trainer_tokenizer T) =
       Inr [''input_ids'' \<mapsto> [[97, 98], [99, 2]],
            ''attention_mask'' \<mapsto> [[1, 1], [1, 0]],
            ''labels'' \<mapsto> [[97, 98], [99, - 100]]] \<and>
     eos_token_id (trainer_tokenizer T) = Some (nat ([[97, 98], [99, 2]] ! 1 ! 1))"
proof -
  from sample_env_trainer obtain T where T: "fst (train_until_trainer sample_env []) = Inr T"
    by blast
  note t = train_pad_token_is_eos_token[OF T]
  from t[THEN conjunct1] have tk: "trainer_tokenizer T =
      loaded_tokenizer\<lparr>pad_token_id := eos_token_id loaded_tokenizer\<rparr>"
    by (auto simp: sample_env_def sample_training_arguments_def loaded_tokenizer_def)
  note c2 = t[THEN conjunct2, THEN conjunct1]
  note c3 = t[THEN conjunct2, THEN conjunct2, THEN conjunct1]
  note c4 = t[THEN conjunct2, THEN conjunct2, THEN conjunct2, THEN conjunct1]
  note c5 = t[THEN conjunct2, THEN conjunct2, THEN conjunct2, THEN conjunct2, THEN conjunct1]
  note c6 = t[THEN conjunct2, THEN conjunct2, THEN conjunct2, THEN conjunct2, THEN conjunct2,
              rule_format]
  have e: "dataset_transform sample_batch (trainer_tokenizer T) =
       Inr [''input_ids'' \<mapsto> [[97, 98], [99, 2]],
            ''attention_mask'' \<mapsto> [[1, 1], [1, 0]],
            ''labels'' \<mapsto> [[97, 98], [99, - 100]]]"
    unfolding tk by (rule run_tokenizer_transform)
  have k1: "[''input_ids'' \<mapsto> [[97, 98], [99, 2]],
            ''attention_mask'' \<mapsto> [[1, 1], [1, 0]],
            ''labels'' \<mapsto> [[97, 98], [99, - 100 :: int]]] ''input_ids'' = Some [[97, 98], [99, 2]]"
    by simp
  have k2: "[''input_ids'' \<mapsto> [[97, 98], [99, 2]],
            ''attention_mask'' \<mapsto> [[1, 1], [1, 0]],
            ''labels'' \<mapsto> [[97, 98], [99, - 100 :: int]]] ''attention_mask'' = Some [[1, 1], [1, 0]]"
    by simp
  have i: "1 < length [[97, 98], [99, 2 :: int]]" by simp
  have j: "1 < length ([[97, 98], [99, 2 :: int]] ! 1)" by simp
  have m: "[[1, 1], [1, 0 :: int]] ! 1 ! 1 = 0" by simp
  have c: "eos_token_id (trainer_tokenizer T) = Some (nat ([[97, 98], [99, 2]] ! 1 ! 1))"
    by (rule c6[OF e k1 k2 i j m, THEN conjunct1])
  show ?thesis
    by (rule exI[of _ T])
       (rule conjI[OF T conjI[OF tk conjI[OF c2 conjI[OF c3 conjI[OF c4 conjI[OF c5 conjI[OF e c]]]]]]])
qed

end
